theory Spec2Isabelle
  imports Complex_Main
begin

section \<open>Data model\<close>

text \<open>
  The reconciliation engine of the asset tracker (\<open>app/updater.py\<close>, \<open>app/helpres.py\<close>,
  \<open>app/jira_assets.py\<close>, \<open>app/jira_board.py\<close>, \<open>app/config.py\<close>) is embedded with explicit
  state passing. Python exceptions are values (\<open>Raise\<close>), the module-level task cache is a
  field of the state, every HTTP request a client method sends is appended to a trace, and
  the two components whose invocations are counted (the lifecycle decider
  \<open>process_linked_update_issue\<close> and the remediation creator \<open>create_update_task\<close>) leave an
  entry mark in the same trace. Logging is not modelled.

  JSON documents are typed the way the code reads them: a key read with \<open>.get\<close> is an
  optional field, JSON null or a falsy response is \<open>None\<close>. Values of other JSON types
  at these keys are excluded by the types.
\<close>

datatype exn = KeyError | IndexError | ValueError | AttributeError

datatype 'a res = Ret 'a | Raise exn

text \<open>An extracted attribute value: a string, or Python \<open>None\<close>.\<close>

datatype pyval = PNone | PStr string

fun truthy :: "pyval \<Rightarrow> bool" where
  "truthy PNone = False"
| "truthy (PStr s) = (s \<noteq> [])"

fun py_str :: "pyval \<Rightarrow> string" where
  "py_str PNone = ''None''"
| "py_str (PStr s) = s"

text \<open>An id of the assignee mapping (\<open>user_mapping.json\<close>): a JSON string or number.\<close>

datatype jid = IdStr string | IdNum int

fun jid_truthy :: "jid \<Rightarrow> bool" where
  "jid_truthy (IdStr s) = (s \<noteq> [])"
| "jid_truthy (IdNum n) = (n \<noteq> 0)"

text \<open>The issue document of \<open>GET rest/api/2/issue/{key}\<close>, as far as the code reads it.\<close>

datatype status_obj = StatusObj (name: "string option")

datatype fields_obj = FieldsObj (status: "status_obj option") (labels: "string list option")

datatype task = Task (task_fields: "fields_obj option")

text \<open>A ticket linked to an asset, as the link query lists it; every link has its
  \<open>key\<close>.\<close>

datatype linked_issue = LinkedIssue (key: string)

datatype transition = Transition (tr_id: string) (tr_name: string)

text \<open>A reply of \<open>_request\<close> to a POST: no body, the error dictionary, or a JSON object
  of which only the \<open>key\<close> entry is read.\<close>

datatype reply = NoBody | ErrorDict | Json "string option"

text \<open>The raw attribute records of an asset object.\<close>

datatype ref_obj = RefObj (label: "pyval option")

datatype attr_value = AttrValue (val: "pyval option") (referencedObject: "ref_obj option")

datatype raw_attr =
  RawAttr (objectTypeAttributeId: string) (objectAttributeValues: "attr_value list option")

datatype asset = Asset (asset_id: "string option") (raw_attributes: "raw_attr list option")

text \<open>The \<open>fields\<close> object that \<open>JiraBoard.create_task\<close> posts.\<close>

record new_issue =
  project :: string
  summary :: string
  description :: string
  issuetype :: string
  assignee :: "jid option"
  duedate :: "string option"
  issue_labels :: "string list option"
  customfield_10191 :: "(string \<times> string \<times> string) option"

datatype event =
    HttpGetIssue string
  | HttpGetTickets string
  | HttpGetTransitions string
  | HttpPostComment string string
  | HttpPostTransition string string
  | HttpPostIssue new_issue
  | Enter_process_linked_update_issue string
  | Enter_create_update_task bool

text \<open>
  The environment of one pass: the successive readings of \<open>datetime.now()\<close> (in
  microseconds), \<open>datetime.strptime(_, "%Y-%m-%d")\<close> (\<open>None\<close> where it raises),
  the process environment variables, the two configuration mappings, and the answers of the
  remote services, which do not change during the pass.
\<close>

record env =
  clock :: "nat \<Rightarrow> int"
  strptime :: "string \<Rightarrow> int option"
  JIRA_WORKSPACE_ID :: "string option"
  JIRA_PROJECT_KEY :: "string option"
  ASSIGNEE_MAPPING :: "string \<rightharpoonup> jid"
  attribute_map :: "string \<rightharpoonup> string"
  issue_reply :: "string \<Rightarrow> task option"
  tickets_reply :: "string \<Rightarrow> linked_issue list option option"
  transitions_reply :: "string \<Rightarrow> transition list option option"
  comment_reply :: "string \<Rightarrow> string \<Rightarrow> reply"
  transition_reply :: "string \<Rightarrow> string \<Rightarrow> reply"
  create_reply :: "new_issue \<Rightarrow> reply"

record state =
  task_cache :: "string \<rightharpoonup> task option"
  trace :: "event list"
  ticks :: nat

definition emit :: "event \<Rightarrow> state \<Rightarrow> state" where
  "emit e s = s\<lparr>trace := trace s @ [e]\<rparr>"

definition datetime_now :: "env \<Rightarrow> state \<Rightarrow> int \<times> state" where
  "datetime_now E s = (clock E (ticks s), s\<lparr>ticks := Suc (ticks s)\<rparr>)"

section \<open>Configuration (app/config.py)\<close>

definition ONE_DAY_SECONDS :: int where
  "ONE_DAY_SECONDS = 86400"

definition UPDATE_WARNING_DAYS :: int where
  "UPDATE_WARNING_DAYS = 5"

definition UPDATE_WARNING_SECONDS :: int where
  "UPDATE_WARNING_SECONDS = UPDATE_WARNING_DAYS * ONE_DAY_SECONDS"

definition TASK_SUMMARY_TEMPLATE :: "string \<Rightarrow> string" where
  "TASK_SUMMARY_TEMPLATE asset_name = ''Update '' @ asset_name"

definition TASK_DESCRIPTION_TEMPLATE :: "string \<Rightarrow> string" where
  "TASK_DESCRIPTION_TEMPLATE asset_name =
     ''Please update the asset '' @ [CHR 0x27] @ asset_name @ [CHR 0x27] @ ''.''
     @ [CHR 0x0A, CHR 0x0A] @ ''Required steps:'' @ [CHR 0x0A]
     @ ''1. Update the app'' @ [CHR 0x0A]
     @ ''2. Update the '' @ [CHR 0x27] @ ''Update'' @ [CHR 0x27] @ '' property in Asset''
     @ [CHR 0x0A] @ ''3. Move task to -> DONE''"

definition COMMENT_REMINDER :: "string \<Rightarrow> string" where
  "COMMENT_REMINDER update_date =
     ''Reminder: The asset update is overdue (Update date: '' @ update_date
     @ ''). Please update the asset.''"

definition COMMENT_REQUEST_UPDATE :: string where
  "COMMENT_REQUEST_UPDATE = ''The Update date is outdated. Please update the asset accordingly.''"

section \<open>The ticket client (app/jira_board.py)\<close>

text \<open>\<open>_request\<close> catches every exception and returns the error dictionary, so the
  request methods never raise.\<close>

definition get_task :: "env \<Rightarrow> string \<Rightarrow> state \<Rightarrow> task option \<times> state" where
  "get_task E issue_key s = (issue_reply E issue_key, emit (HttpGetIssue issue_key) s)"

definition add_comment :: "env \<Rightarrow> string \<Rightarrow> string \<Rightarrow> state \<Rightarrow> reply \<times> state" where
  "add_comment E issue_key comment s =
     (comment_reply E issue_key comment, emit (HttpPostComment issue_key comment) s)"

definition get_transitions ::
  "env \<Rightarrow> string \<Rightarrow> state \<Rightarrow> transition list option option \<times> state" where
  "get_transitions E issue_key s =
     (transitions_reply E issue_key, emit (HttpGetTransitions issue_key) s)"

definition transition_task :: "env \<Rightarrow> string \<Rightarrow> string \<Rightarrow> state \<Rightarrow> reply \<times> state" where
  "transition_task E issue_key transition_id s =
     (transition_reply E issue_key transition_id,
      emit (HttpPostTransition issue_key transition_id) s)"

fun first_transition_named :: "string \<Rightarrow> transition list \<Rightarrow> string option" where
  "first_transition_named transition_name [] = None"
| "first_transition_named transition_name (t # ts) =
     (if tr_name t = transition_name then Some (tr_id t)
      else first_transition_named transition_name ts)"

text \<open>\<open>transitions.get("transitions", [])\<close> raises AttributeError when the reply is
  \<open>None\<close> (an empty body).\<close>

definition find_transition_by_name ::
  "env \<Rightarrow> string \<Rightarrow> string \<Rightarrow> state \<Rightarrow> string option res \<times> state" where
  "find_transition_by_name E issue_key transition_name s =
     (case get_transitions E issue_key s of
        (None, s1) \<Rightarrow> (Raise AttributeError, s1)
      | (Some d, s1) \<Rightarrow>
          (Ret (first_transition_named transition_name (case d of None \<Rightarrow> [] | Some ts \<Rightarrow> ts)),
           s1))"

definition transition_task_by_name ::
  "env \<Rightarrow> string \<Rightarrow> string \<Rightarrow> state \<Rightarrow> reply res \<times> state" where
  "transition_task_by_name E issue_key transition_name s =
     (case find_transition_by_name E issue_key transition_name s of
        (Raise e, s1) \<Rightarrow> (Raise e, s1)
      | (Ret transition_id, s1) \<Rightarrow>
          (case transition_id of
             None \<Rightarrow> (Raise ValueError, s1)
           | Some tid \<Rightarrow>
               if tid = [] then (Raise ValueError, s1)
               else (case transition_task E issue_key tid s1 of (r, s2) \<Rightarrow> (Ret r, s2))))"

section \<open>Helpers (app/helpres.py)\<close>

definition get_task_cached :: "env \<Rightarrow> string \<Rightarrow> state \<Rightarrow> task option \<times> state" where
  "get_task_cached E issue_key s =
     (case task_cache s issue_key of
        None \<Rightarrow>
          (case get_task E issue_key s of
             (t, s1) \<Rightarrow> (t, s1\<lparr>task_cache := (task_cache s1)(issue_key \<mapsto> t)\<rparr>))
      | Some t \<Rightarrow> (t, s))"

definition clear_task_cache :: "state \<Rightarrow> state" where
  "clear_task_cache s = s\<lparr>task_cache := Map.empty\<rparr>"

text \<open>\<open>attributes.get(k, [None])[0]\<close>: IndexError on an empty list of values.\<close>

definition first_value :: "(string \<rightharpoonup> pyval list) \<Rightarrow> string \<Rightarrow> pyval res" where
  "first_value attributes k =
     (case attributes k of
        None \<Rightarrow> Ret PNone
      | Some [] \<Rightarrow> Raise IndexError
      | Some (v # vs) \<Rightarrow> Ret v)"

definition extract_update_date ::
  "env \<Rightarrow> (string \<rightharpoonup> pyval list) \<Rightarrow> int option res" where
  "extract_update_date E attributes =
     (case first_value attributes ''Update'' of
        Raise e \<Rightarrow> Raise e
      | Ret update_date_str \<Rightarrow>
          if truthy update_date_str then Ret (strptime E (py_str update_date_str))
          else Ret None)"

definition extract_assignee_name :: "(string \<rightharpoonup> pyval list) \<Rightarrow> pyval res" where
  "extract_assignee_name attributes = first_value attributes ''Primary Responsible Employee''"

definition is_task_for_update :: "task option \<Rightarrow> bool" where
  "is_task_for_update task =
     (case task of
        None \<Rightarrow> False
      | Some t \<Rightarrow>
          (case task_fields t of
             None \<Rightarrow> False
           | Some f \<Rightarrow>
               (case labels f of
                  None \<Rightarrow> False
                | Some ls \<Rightarrow> ''AssetUpdate'' \<in> set ls)))"

fun filter_update_issues ::
  "env \<Rightarrow> linked_issue list \<Rightarrow> state \<Rightarrow> linked_issue list \<times> state" where
  "filter_update_issues E [] s = ([], s)"
| "filter_update_issues E (linked_issue # rest) s =
     (case get_task_cached E (key linked_issue) s of
        (task, s1) \<Rightarrow>
          (case filter_update_issues E rest s1 of
             (filtered, s2) \<Rightarrow>
               (if is_task_for_update task then linked_issue # filtered else filtered, s2)))"

section \<open>The asset client (app/jira_assets.py)\<close>

text \<open>The inner loop of \<open>extract_attribute_values\<close>: the \<open>if\<close>/\<open>elif\<close> has no
  \<open>else\<close>, and \<open>.get("label")\<close> yields \<open>None\<close> for an object without label.\<close>

fun extract_values :: "attr_value list \<Rightarrow> pyval list" where
  "extract_values [] = []"
| "extract_values (v # vs) =
     (case val v of
        Some x \<Rightarrow> x # extract_values vs
      | None \<Rightarrow>
          (case referencedObject v of
             Some r \<Rightarrow> (case label r of None \<Rightarrow> PNone | Some l \<Rightarrow> l) # extract_values vs
           | None \<Rightarrow> extract_values vs))"

text \<open>The outer loop: \<open>if attr_name:\<close> skips an id that is not in the map or is mapped
  to the empty name; a later record of the same name overwrites the entry.\<close>

fun extract_loop ::
  "(string \<rightharpoonup> string) \<Rightarrow> raw_attr list \<Rightarrow> (string \<rightharpoonup> pyval list) \<Rightarrow> (string \<rightharpoonup> pyval list)"
  where
  "extract_loop amap [] attributes = attributes"
| "extract_loop amap (attr # rest) attributes =
     (case amap (objectTypeAttributeId attr) of
        None \<Rightarrow> extract_loop amap rest attributes
      | Some attr_name \<Rightarrow>
          if attr_name \<noteq> [] then
            extract_loop amap rest
              (attributes(attr_name \<mapsto>
                 extract_values (case objectAttributeValues attr of None \<Rightarrow> [] | Some vs \<Rightarrow> vs)))
          else extract_loop amap rest attributes)"

definition extract_attribute_values ::
  "asset \<Rightarrow> (string \<rightharpoonup> string) \<Rightarrow> (string \<rightharpoonup> pyval list)" where
  "extract_attribute_values object_data amap =
     extract_loop amap (case raw_attributes object_data of None \<Rightarrow> [] | Some as \<Rightarrow> as) Map.empty"

definition get_object_connected_tickets ::
  "env \<Rightarrow> string \<Rightarrow> state \<Rightarrow> linked_issue list \<times> state" where
  "get_object_connected_tickets E object_id s =
     (case tickets_reply E object_id of
        None \<Rightarrow> []
      | Some response \<Rightarrow> (case response of None \<Rightarrow> [] | Some tickets \<Rightarrow> tickets),
      emit (HttpGetTickets object_id) s)"

section \<open>The reconciler (app/updater.py)\<close>

text \<open>\<open>task.get("fields", {}).get("status", {}).get("name", "")\<close>\<close>

definition task_status :: "task \<Rightarrow> string" where
  "task_status t =
     (case task_fields t of
        None \<Rightarrow> []
      | Some f \<Rightarrow>
          (case status f of
             None \<Rightarrow> []
           | Some st \<Rightarrow> (case name st of None \<Rightarrow> [] | Some n \<Rightarrow> n)))"

definition process_linked_update_issue ::
  "env \<Rightarrow> linked_issue \<Rightarrow> asset \<Rightarrow> (string \<rightharpoonup> pyval list) \<Rightarrow> state \<Rightarrow> unit res \<times> state" where
  "process_linked_update_issue E issue asset attributes s0 =
     (let issue_key = key issue in
      case get_task_cached E issue_key (emit (Enter_process_linked_update_issue issue_key) s0) of
        (None, s1) \<Rightarrow> (Ret (), s1)
      | (Some task, s1) \<Rightarrow>
          (let status = task_status task in
           case first_value attributes ''Update'' of
             Raise e \<Rightarrow> (Raise e, s1)
           | Ret update_date_str \<Rightarrow>
               if \<not> truthy update_date_str then (Ret (), s1)
               else
                 (case strptime E (py_str update_date_str) of
                    None \<Rightarrow> (Ret (), s1)
                  | Some update_date \<Rightarrow>
                      (case datetime_now E s1 of
                         (now, s2) \<Rightarrow>
                           if status \<noteq> ''Done'' then
                             if update_date \<le> now then
                               if status \<noteq> ''In Progress'' then
                                 (case add_comment E issue_key
                                         (COMMENT_REMINDER (py_str update_date_str)) s2 of
                                    (r, s3) \<Rightarrow>
                                      (case transition_task_by_name E issue_key ''In Progress'' s3 of
                                         (Raise e, s4) \<Rightarrow> (Raise e, s4)
                                       | (Ret r', s4) \<Rightarrow> (Ret (), s4)))
                               else (Ret (), s2)
                             else (Ret (), s2)
                           else
                             if update_date \<le> now then
                               (case add_comment E issue_key COMMENT_REQUEST_UPDATE s2 of
                                  (r, s3) \<Rightarrow> (Ret (), s3))
                             else (Ret (), s2)))))"

text \<open>\<open>JiraBoard.create_task\<close>: \<open>assignee\<close>, \<open>duedate\<close> and \<open>labels\<close> enter
  the posted fields only when truthy. Its ValueError needs an empty project key, summary
  or description.\<close>

definition create_task ::
  "env \<Rightarrow> string \<Rightarrow> string \<Rightarrow> string \<Rightarrow> string \<Rightarrow> jid option \<Rightarrow> string option \<Rightarrow>
   string list option \<Rightarrow> (string \<times> string \<times> string) option \<Rightarrow> state \<Rightarrow> reply res \<times> state" where
  "create_task E project_key summ descr issue_type assignee_id due task_labels custom s =
     (if project_key = [] \<or> summ = [] \<or> descr = [] then (Raise ValueError, s)
      else
        (let flds = \<lparr>project = project_key, summary = summ, description = descr,
                     issuetype = issue_type,
                     assignee = (case assignee_id of
                                   None \<Rightarrow> None
                                 | Some a \<Rightarrow> if jid_truthy a then Some a else None),
                     duedate = (case due of
                                  None \<Rightarrow> None
                                | Some d \<Rightarrow> if d \<noteq> [] then Some d else None),
                     issue_labels = (case task_labels of
                                       None \<Rightarrow> None
                                     | Some ls \<Rightarrow> if ls \<noteq> [] then Some ls else None),
                     customfield_10191 = custom\<rparr>
         in (Ret (create_reply E flds), emit (HttpPostIssue flds) s)))"

text \<open>The response of \<open>create_task\<close> only decides which message is logged. The
  \<open>is_outdated\<close> flag is not used.\<close>

definition create_update_task ::
  "env \<Rightarrow> asset \<Rightarrow> (string \<rightharpoonup> pyval list) \<Rightarrow> bool \<Rightarrow> state \<Rightarrow> unit res \<times> state" where
  "create_update_task E asset attributes is_outdated s0 =
     (let s = emit (Enter_create_update_task is_outdated) s0 in
      case (JIRA_WORKSPACE_ID E, JIRA_PROJECT_KEY E) of
        (Some workspace_id, Some project_key) \<Rightarrow>
          if workspace_id = [] \<or> project_key = [] then (Ret (), s)
          else
            (case asset_id asset of
               None \<Rightarrow> (Ret (), s)
             | Some aid \<Rightarrow>
                 if aid = [] then (Ret (), s)
                 else
                   (case get_object_connected_tickets E aid s of
                      (linked_issues, s1) \<Rightarrow>
                        (case filter_update_issues E linked_issues s1 of
                           (update_issues, s2) \<Rightarrow>
                             if update_issues \<noteq> [] then (Ret (), s2)
                             else
                               (case first_value attributes ''Name'' of
                                  Raise e \<Rightarrow> (Raise e, s2)
                                | Ret asset_name \<Rightarrow>
                                    if \<not> truthy asset_name then (Ret (), s2)
                                    else
                                      (case first_value attributes ''Update'' of
                                         Raise e \<Rightarrow> (Raise e, s2)
                                       | Ret due \<Rightarrow>
                                           if \<not> truthy due then (Ret (), s2)
                                           else
                                             (case extract_assignee_name attributes of
                                                Raise e \<Rightarrow> (Raise e, s2)
                                              | Ret assignee_name \<Rightarrow>
                                                  (let assignee_id =
                                                         (if truthy assignee_name
                                                          then ASSIGNEE_MAPPING E (py_str assignee_name)
                                                          else None)
                                                   in case create_task E project_key
                                                        (TASK_SUMMARY_TEMPLATE (py_str asset_name))
                                                        (TASK_DESCRIPTION_TEMPLATE (py_str asset_name))
                                                        ''Task''
                                                        (case assignee_id of
                                                           None \<Rightarrow> None
                                                         | Some a \<Rightarrow>
                                                             if jid_truthy a \<and> a \<noteq> IdNum 0
                                                             then Some a else None)
                                                        (Some (py_str due))
                                                        (Some [''AssetUpdate''])
                                                        (Some (workspace_id,
                                                               workspace_id @ '':'' @ aid, aid))
                                                        s2 of
                                                        (Raise e, s3) \<Rightarrow> (Raise e, s3)
                                                      | (Ret response, s3) \<Rightarrow> (Ret (), s3))))))))
      | _ \<Rightarrow> (Ret (), s))"

fun process_each ::
  "env \<Rightarrow> linked_issue list \<Rightarrow> asset \<Rightarrow> (string \<rightharpoonup> pyval list) \<Rightarrow> state \<Rightarrow> unit res \<times> state"
  where
  "process_each E [] asset attributes s = (Ret (), s)"
| "process_each E (issue # rest) asset attributes s =
     (case process_linked_update_issue E issue asset attributes s of
        (Raise e, s1) \<Rightarrow> (Raise e, s1)
      | (Ret u, s1) \<Rightarrow> process_each E rest asset attributes s1)"

text \<open>\<open>asset["id"]\<close> raises KeyError on an asset without an id.\<close>

definition handle_overdue_asset ::
  "env \<Rightarrow> asset \<Rightarrow> (string \<rightharpoonup> pyval list) \<Rightarrow> state \<Rightarrow> unit res \<times> state" where
  "handle_overdue_asset E asset attributes s =
     (case asset_id asset of
        None \<Rightarrow> (Raise KeyError, s)
      | Some aid \<Rightarrow>
          (case get_object_connected_tickets E aid s of
             (linked_issues, s1) \<Rightarrow>
               (case filter_update_issues E linked_issues s1 of
                  (update_issues, s2) \<Rightarrow>
                    if update_issues \<noteq> [] then process_each E update_issues asset attributes s2
                    else create_update_task E asset attributes True s2)))"

definition active_statuses :: "string list" where
  "active_statuses = [''TO DO'', ''In Progress'']"

text \<open>The loop of \<open>handle_future_asset\<close>; its result is \<open>active_issue_found\<close>.\<close>

fun find_active_issue :: "env \<Rightarrow> linked_issue list \<Rightarrow> state \<Rightarrow> bool \<times> state" where
  "find_active_issue E [] s = (False, s)"
| "find_active_issue E (issue # rest) s =
     (case get_task_cached E (key issue) s of
        (None, s1) \<Rightarrow> find_active_issue E rest s1
      | (Some task, s1) \<Rightarrow>
          if task_status task \<in> set active_statuses then (True, s1)
          else find_active_issue E rest s1)"

definition handle_future_asset ::
  "env \<Rightarrow> asset \<Rightarrow> (string \<rightharpoonup> pyval list) \<Rightarrow> int \<Rightarrow> state \<Rightarrow> unit res \<times> state" where
  "handle_future_asset E asset attributes update_date s =
     (case asset_id asset of
        None \<Rightarrow> (Raise KeyError, s)
      | Some aid \<Rightarrow>
          (case get_object_connected_tickets E aid s of
             (linked_issues, s1) \<Rightarrow>
               (case filter_update_issues E linked_issues s1 of
                  (update_issues, s2) \<Rightarrow>
                    (case find_active_issue E update_issues s2 of
                       (active_issue_found, s3) \<Rightarrow>
                         if \<not> active_issue_found
                         then create_update_task E asset attributes False s3
                         else (Ret (), s3)))))"

text \<open>
  Datetimes and timedeltas are counted in microseconds; \<open>total_seconds()\<close> is the
  quotient by \<open>10^6\<close>, taken exactly.
\<close>

definition total_seconds :: "int \<Rightarrow> real" where
  "total_seconds time_diff = real_of_int time_diff / 1000000"

datatype urgency = Overdue | DueSoon | Current

text \<open>The three-way branch of \<open>process_asset_update\<close>.\<close>

definition classify :: "int \<Rightarrow> int \<Rightarrow> urgency" where
  "classify update_date now =
     (let time_diff = update_date - now in
      if total_seconds time_diff \<le> 0 then Overdue
      else if total_seconds time_diff \<le> real_of_int UPDATE_WARNING_SECONDS then DueSoon
      else Current)"

definition process_asset_update :: "env \<Rightarrow> asset \<Rightarrow> state \<Rightarrow> unit res \<times> state" where
  "process_asset_update E asset s =
     (let attributes = extract_attribute_values asset (attribute_map E) in
      case extract_update_date E attributes of
        Raise e \<Rightarrow> (Raise e, s)
      | Ret None \<Rightarrow> (Ret (), s)
      | Ret (Some update_date) \<Rightarrow>
          (case datetime_now E s of
             (now, s1) \<Rightarrow>
               (case classify update_date now of
                  Overdue \<Rightarrow> handle_overdue_asset E asset attributes s1
                | DueSoon \<Rightarrow> handle_future_asset E asset attributes update_date s1
                | Current \<Rightarrow> (Ret (), s1))))"

fun process_assets_with_update :: "env \<Rightarrow> asset list \<Rightarrow> state \<Rightarrow> unit res \<times> state" where
  "process_assets_with_update E [] s = (Ret (), s)"
| "process_assets_with_update E (asset # rest) s =
     (case process_asset_update E asset s of
        (Raise e, s1) \<Rightarrow> (Raise e, s1)
      | (Ret u, s1) \<Rightarrow> process_assets_with_update E rest s1)"

text \<open>One iteration of \<open>run_every_10_minutes\<close>, on the assets its query returned.\<close>

definition run_iteration :: "env \<Rightarrow> asset list \<Rightarrow> state \<Rightarrow> unit res \<times> state" where
  "run_iteration E assets s = process_assets_with_update E assets (clear_task_cache s)"

section \<open>Observations on traces\<close>

text \<open>The events that change the ticket tracker.\<close>

fun is_action :: "event \<Rightarrow> bool" where
  "is_action (HttpPostComment k c) = True"
| "is_action (HttpPostTransition k t) = True"
| "is_action (HttpPostIssue f) = True"
| "is_action e = False"

fun is_create :: "event \<Rightarrow> bool" where
  "is_create (HttpPostIssue f) = True"
| "is_create e = False"

fun is_creator_call :: "event \<Rightarrow> bool" where
  "is_creator_call (Enter_create_update_task b) = True"
| "is_creator_call e = False"

fun is_decider_call :: "event \<Rightarrow> bool" where
  "is_decider_call (Enter_process_linked_update_issue k) = True"
| "is_decider_call e = False"

text \<open>What a cached lookup of a key yields in a state: the cached entry, else the
  tracker's answer.\<close>

definition lookup :: "env \<Rightarrow> state \<Rightarrow> string \<Rightarrow> task option" where
  "lookup E s k = (case task_cache s k of None \<Rightarrow> issue_reply E k | Some t \<Rightarrow> t)"

text \<open>The events a run appends to the trace.\<close>

definition new_events :: "state \<Rightarrow> state \<Rightarrow> event list" where
  "new_events s s' = drop (length (trace s)) (trace s')"

text \<open>The id under which the tracker offers a transition of a given name for an issue,
  when it offers one that \<open>transition_task_by_name\<close> accepts.\<close>

definition offered :: "env \<Rightarrow> string \<Rightarrow> string \<Rightarrow> string option" where
  "offered E issue_key transition_name =
     (case transitions_reply E issue_key of
        Some (Some ts) \<Rightarrow>
          (case first_transition_named transition_name ts of
             Some tid \<Rightarrow> if tid = [] then None else Some tid
           | None \<Rightarrow> None)
      | _ \<Rightarrow> None)"

text \<open>The tickets linked to an asset, and those of them that are remediation tickets.\<close>

definition linked :: "env \<Rightarrow> string \<Rightarrow> linked_issue list" where
  "linked E object_id =
     (case tickets_reply E object_id of
        None \<Rightarrow> []
      | Some response \<Rightarrow> (case response of None \<Rightarrow> [] | Some tickets \<Rightarrow> tickets))"

definition update_links :: "env \<Rightarrow> state \<Rightarrow> string \<Rightarrow> linked_issue list" where
  "update_links E s object_id =
     filter (\<lambda>l. is_task_for_update (lookup E s (key l))) (linked E object_id)"

text \<open>The state in which the decider has looked its ticket up, and the events up to
  there.\<close>

definition entered :: "env \<Rightarrow> string \<Rightarrow> state \<Rightarrow> state" where
  "entered E k s = snd (get_task_cached E k (emit (Enter_process_linked_update_issue k) s))"

definition pre_decider :: "state \<Rightarrow> string \<Rightarrow> event list" where
  "pre_decider s k =
     Enter_process_linked_update_issue k # (if task_cache s k = None then [HttpGetIssue k] else [])"

text \<open>The requests of the decider after the lookup, by status and by whether the due
  date has passed.\<close>

definition decider_requests :: "env \<Rightarrow> string \<Rightarrow> string \<Rightarrow> string \<Rightarrow> bool \<Rightarrow> event list" where
  "decider_requests E k st d due_passed =
     (if st \<noteq> ''Done'' then
        if due_passed \<and> st \<noteq> ''In Progress'' then
          HttpPostComment k (COMMENT_REMINDER d) # HttpGetTransitions k #
            (case offered E k ''In Progress'' of Some tid \<Rightarrow> [HttpPostTransition k tid] | None \<Rightarrow> [])
        else []
      else if due_passed then [HttpPostComment k COMMENT_REQUEST_UPDATE] else [])"

text \<open>The state after fetching the links of an asset and filtering them.\<close>

definition fetched :: "env \<Rightarrow> string \<Rightarrow> state \<Rightarrow> state" where
  "fetched E aid s = snd (filter_update_issues E (linked E aid) (emit (HttpGetTickets aid) s))"

text \<open>The state in which the creator has fetched and filtered the links of its asset.\<close>

definition prepared :: "env \<Rightarrow> string \<Rightarrow> bool \<Rightarrow> state \<Rightarrow> state" where
  "prepared E aid flag s = fetched E aid (emit (Enter_create_update_task flag) s)"

text \<open>The assignee the creator passes on for a responsible-person name.\<close>

definition assignee_for :: "env \<Rightarrow> pyval \<Rightarrow> jid option" where
  "assignee_for E assignee_name =
     (if truthy assignee_name
      then (case ASSIGNEE_MAPPING E (py_str assignee_name) of
              None \<Rightarrow> None
            | Some a \<Rightarrow> if jid_truthy a then Some a else None)
      else None)"

text \<open>Whether a looked-up ticket counts as active for \<open>handle_future_asset\<close>.\<close>

definition is_active :: "task option \<Rightarrow> bool" where
  "is_active task =
     (case task of None \<Rightarrow> False | Some t \<Rightarrow> task_status t \<in> set active_statuses)"

section \<open>Scenarios\<close>

text \<open>Concrete environments on which the theorems below are instantiated. The clock
  starts at 2024-06-01 00:00:00 and advances by one microsecond per reading.\<close>

definition strptime0 :: "string \<Rightarrow> int option" where
  "strptime0 d =
     (if d = ''2024-01-01'' then Some 1704067200000000
      else if d = ''2024-06-04'' then Some 1717459200000000
      else if d = ''2025-01-01'' then Some 1735689600000000
      else None)"

definition env0 :: env where
  "env0 =
     \<lparr>clock = (\<lambda>n. 1717200000000000 + int n),
      strptime = strptime0,
      JIRA_WORKSPACE_ID = Some ''ws'',
      JIRA_PROJECT_KEY = Some ''OPS'',
      ASSIGNEE_MAPPING = [''Ann'' \<mapsto> IdStr ''u1'', ''Bob'' \<mapsto> IdNum 0],
      attribute_map = [''1'' \<mapsto> ''Name'', ''2'' \<mapsto> ''Update'',
                       ''3'' \<mapsto> ''Primary Responsible Employee'', ''4'' \<mapsto> []],
      issue_reply = (\<lambda>k. None),
      tickets_reply = (\<lambda>a. Some (Some [])),
      transitions_reply = (\<lambda>k. Some (Some [])),
      comment_reply = (\<lambda>k c. Json None),
      transition_reply = (\<lambda>k t. NoBody),
      create_reply = (\<lambda>f. Json (Some ''OPS-100''))\<rparr>"

definition state0 :: state where
  "state0 = \<lparr>task_cache = Map.empty, trace = [], ticks = 0\<rparr>"

definition ticket :: "string \<Rightarrow> string list \<Rightarrow> task option" where
  "ticket st ls = Some (Task (Some (FieldsObj (Some (StatusObj (Some st))) (Some ls))))"

definition workflow :: "transition list" where
  "workflow = [Transition ''11'' ''To Do'', Transition ''21'' ''In Progress'',
               Transition ''31'' ''Done'']"

definition env1 :: env where
  "env1 = env0
     \<lparr>issue_reply := (\<lambda>k.
        if k = ''OPS-1'' then ticket ''To Do'' [''AssetUpdate'']
        else if k = ''OPS-2'' then ticket ''In Progress'' [''AssetUpdate'']
        else if k = ''OPS-3'' then ticket ''Done'' [''AssetUpdate'']
        else if k = ''OPS-4'' then ticket ''Blocked'' [''AssetUpdate'']
        else if k = ''OPS-5'' then ticket ''done'' [''AssetUpdate'']
        else if k = ''OPS-6'' then ticket ''To Do'' [''Other'']
        else None),
      transitions_reply := (\<lambda>k.
        if k = ''OPS-4'' then Some (Some [Transition ''31'' ''Done''])
        else Some (Some workflow)),
      tickets_reply := (\<lambda>a.
        if a = ''A2'' then Some (Some [LinkedIssue ''OPS-1''])
        else if a = ''A3'' then Some (Some [LinkedIssue ''OPS-3''])
        else if a = ''A4'' then Some (Some [LinkedIssue ''OPS-4'', LinkedIssue ''OPS-1''])
        else if a = ''A5'' then Some (Some [LinkedIssue ''OPS-2''])
        else if a = ''A6'' then Some (Some [LinkedIssue ''OPS-6''])
        else if a = ''A7'' then Some (Some [LinkedIssue ''OPS-1'', LinkedIssue ''OPS-3''])
        else if a = ''A8'' then Some (Some [LinkedIssue ''OPS-1'', LinkedIssue ''OPS-4'',
                                            LinkedIssue ''OPS-3''])
        else Some (Some []))\<rparr>"

definition attrs_past :: "string \<rightharpoonup> pyval list" where
  "attrs_past = [''Name'' \<mapsto> [PStr ''Printer''], ''Update'' \<mapsto> [PStr ''2024-01-01'']]"

definition attrs_future :: "string \<rightharpoonup> pyval list" where
  "attrs_future = [''Name'' \<mapsto> [PStr ''Printer''], ''Update'' \<mapsto> [PStr ''2025-01-01'']]"

definition asset1 :: asset where
  "asset1 = Asset (Some ''A1'') None"

definition raw :: "string \<Rightarrow> string \<Rightarrow> raw_attr list" where
  "raw upd resp =
     [RawAttr ''1'' (Some [AttrValue (Some (PStr ''Printer'')) None]),
      RawAttr ''2'' (Some [AttrValue (Some (PStr upd)) None]),
      RawAttr ''3'' (Some [AttrValue None (Some (RefObj (Some (PStr resp))))])]"

definition asset_of :: "string \<Rightarrow> string \<Rightarrow> asset" where
  "asset_of aid upd = Asset (Some aid) (Some (raw upd ''Bob''))"

definition attrs_of :: "string \<Rightarrow> string \<rightharpoonup> pyval list" where
  "attrs_of upd = [''Name'' \<mapsto> [PStr ''Printer''], ''Update'' \<mapsto> [PStr upd],
                   ''Primary Responsible Employee'' \<mapsto> [PStr ''Bob'']]"

text \<open>The tracker of \<open>env1\<close> with the listing of transitions failing: \<open>_request\<close>
  returns the error dictionary, which has no \<open>transitions\<close> entry.\<close>

definition env_down :: env where
  "env_down = env1\<lparr>transitions_reply := (\<lambda>k. Some None)\<rparr>"

section \<open>Properties\<close>

subsection \<open>Facts about the scenarios\<close>

lemmas model_defs =
  process_asset_update_def handle_future_asset_def handle_overdue_asset_def
  create_update_task_def create_task_def process_linked_update_issue_def
  get_object_connected_tickets_def get_task_cached_def get_task_def add_comment_def
  transition_task_by_name_def find_transition_by_name_def get_transitions_def
  transition_task_def extract_update_date_def extract_assignee_name_def first_value_def
  extract_attribute_values_def is_task_for_update_def task_status_def active_statuses_def
  classify_def total_seconds_def UPDATE_WARNING_SECONDS_def UPDATE_WARNING_DAYS_def
  ONE_DAY_SECONDS_def datetime_now_def emit_def Let_def

lemmas scenario_defs =
  env1_def env0_def state0_def strptime0_def ticket_def workflow_def asset_of_def raw_def
  attrs_of_def attrs_past_def attrs_future_def asset1_def

lemma env1_simps:
  "clock env1 n = 1717200000000000 + int n"
  "strptime env1 = strptime0"
  "issue_reply env1 ''OPS-1'' = ticket ''To Do'' [''AssetUpdate'']"
  "issue_reply env1 ''OPS-2'' = ticket ''In Progress'' [''AssetUpdate'']"
  "issue_reply env1 ''OPS-3'' = ticket ''Done'' [''AssetUpdate'']"
  "issue_reply env1 ''OPS-4'' = ticket ''Blocked'' [''AssetUpdate'']"
  "issue_reply env1 ''OPS-5'' = ticket ''done'' [''AssetUpdate'']"
  "issue_reply env1 ''OPS-6'' = ticket ''To Do'' [''Other'']"
  "transitions_reply env1 ''OPS-4'' = Some (Some [Transition ''31'' ''Done''])"
  "transitions_reply env1 ''OPS-1'' = Some (Some workflow)"
  "transitions_reply env1 ''OPS-5'' = Some (Some workflow)"
  by (simp_all add: env1_def env0_def)

lemma state0_simps:
  "task_cache state0 k = None" "trace state0 = []" "ticks state0 = 0"
  by (simp_all add: state0_def)

lemma scenario_lookup:
  "lookup env1 state0 k = issue_reply env1 k"
  by (simp add: lookup_def state0_simps)

lemma scenario_dates:
  "first_value attrs_past ''Update'' = Ret (PStr ''2024-01-01'')"
  "first_value attrs_future ''Update'' = Ret (PStr ''2025-01-01'')"
  "strptime env1 ''2024-01-01'' = Some 1704067200000000"
  "strptime env1 ''2025-01-01'' = Some 1735689600000000"
  by (simp_all add: first_value_def attrs_past_def attrs_future_def env1_simps strptime0_def)

lemma scenario_offered:
  "offered env1 ''OPS-1'' ''In Progress'' = Some ''21''"
  "offered env1 ''OPS-5'' ''In Progress'' = Some ''21''"
  "offered env1 ''OPS-4'' ''In Progress'' = None"
  by (simp_all add: offered_def env1_simps workflow_def)

lemma scenario_assets:
  "extract_attribute_values (asset_of a u) (attribute_map env1) = attrs_of u"
  "asset_id (asset_of a u) = Some a"
  "extract_update_date env1 (attrs_of ''2024-06-04'') = Ret (Some 1717459200000000)"
  "extract_update_date env1 (attrs_of ''2024-01-01'') = Ret (Some 1704067200000000)"
  by (simp_all add: scenario_defs extract_attribute_values_def extract_update_date_def
      first_value_def)

lemma scenario_links:
  "update_links env1 state0 ''A1'' = []"
  "update_links env1 state0 ''A2'' = [LinkedIssue ''OPS-1'']"
  "update_links env1 state0 ''A3'' = [LinkedIssue ''OPS-3'']"
  "update_links env1 state0 ''A4'' = [LinkedIssue ''OPS-4'', LinkedIssue ''OPS-1'']"
  "update_links env1 state0 ''A5'' = [LinkedIssue ''OPS-2'']"
  "update_links env1 state0 ''A6'' = []"
  "update_links env1 state0 ''A7'' = [LinkedIssue ''OPS-1'', LinkedIssue ''OPS-3'']"
  "update_links env1 state0 ''A8''
     = [LinkedIssue ''OPS-1'', LinkedIssue ''OPS-4'', LinkedIssue ''OPS-3'']"
  by (simp_all add: update_links_def linked_def lookup_def is_task_for_update_def scenario_defs)

lemma scenario_tickets:
  "lookup env1 state0 ''OPS-1'' = Some t \<Longrightarrow> task_status t = ''To Do''"
  "lookup env1 state0 ''OPS-2'' = Some t \<Longrightarrow> task_status t = ''In Progress''"
  "lookup env1 state0 ''OPS-3'' = Some t \<Longrightarrow> task_status t = ''Done''"
  "lookup env1 state0 ''OPS-4'' = Some t \<Longrightarrow> task_status t = ''Blocked''"
  by (auto simp: scenario_lookup env1_simps ticket_def task_status_def)

subsection \<open>Traces and templates\<close>

lemma new_events_append: "trace s' = trace s @ evs \<Longrightarrow> new_events s s' = evs"
  by (simp add: new_events_def)

lemma lookup_emit: "lookup E (emit e s) = lookup E s"
  by (rule ext) (simp add: lookup_def emit_def)

lemma lookup_ticks: "lookup E (s\<lparr>ticks := n\<rparr>) = lookup E s"
  by (intro ext) (simp add: lookup_def)

lemma filter_create_action: "filter is_create (filter is_action evs) = filter is_create evs"
proof (induction evs)
  case Nil
  show ?case by simp
next
  case (Cons e evs)
  then show ?case by (cases e) simp_all
qed

lemma templates_nonempty:
  "TASK_SUMMARY_TEMPLATE n \<noteq> []" "TASK_DESCRIPTION_TEMPLATE n \<noteq> []"
  by (simp_all add: TASK_SUMMARY_TEMPLATE_def TASK_DESCRIPTION_TEMPLATE_def)


subsection \<open>The ticket cache\<close>

lemma get_task_cached_eq:
  "get_task_cached E k s =
     (lookup E s k,
      if task_cache s k = None
      then s\<lparr>task_cache := (task_cache s)(k \<mapsto> issue_reply E k),
              trace := trace s @ [HttpGetIssue k]\<rparr>
      else s)"
  by (auto simp: get_task_cached_def get_task_def emit_def lookup_def split: option.splits)

lemma get_task_cached_fst: "fst (get_task_cached E k s) = lookup E s k"
  by (simp add: get_task_cached_eq)

lemma get_task_cached_lookup: "lookup E (snd (get_task_cached E k s)) = lookup E s"
  by (rule ext) (simp add: get_task_cached_eq lookup_def)

lemma get_task_cached_trace:
  "trace (snd (get_task_cached E k s)) =
     trace s @ (if task_cache s k = None then [HttpGetIssue k] else [])"
  by (simp add: get_task_cached_eq)

lemma get_task_cached_ticks: "ticks (snd (get_task_cached E k s)) = ticks s"
  by (simp add: get_task_cached_eq)

lemma get_task_cached_dom:
  "dom (task_cache (snd (get_task_cached E k s))) = insert k (dom (task_cache s))"
  by (auto simp: get_task_cached_eq)

lemma get_task_cached_known:
  "k \<in> dom (task_cache s) \<Longrightarrow> get_task_cached E k s = (lookup E s k, s)"
  by (auto simp: get_task_cached_eq)

text \<open>
  C6: a second lookup of a key returns what the first returned and leaves the state as the
  first left it, so it sends no request; a cached entry is returned without a request and
  survives the lookups of other keys. When the key was not yet cached the two lookups
  together send exactly one \<open>GET\<close> for the issue, and this also holds when the answer is
  \<open>None\<close>, which is stored like any other. After \<open>clear_task_cache\<close> a lookup always
  sends a fresh request, and one iteration starts by clearing the cache.
\<close>

theorem ticket_cache_single_fetch:
  "get_task_cached E k (snd (get_task_cached E k s)) = get_task_cached E k s
   \<and> (task_cache s k = Some t \<longrightarrow>
        get_task_cached E k s = (t, s)
        \<and> task_cache (snd (get_task_cached E k' s)) k = Some t)
   \<and> (task_cache s k = None \<longrightarrow>
        fst (get_task_cached E k s) = issue_reply E k
        \<and> task_cache (snd (get_task_cached E k s)) k = Some (issue_reply E k)
        \<and> trace (snd (get_task_cached E k s)) = trace s @ [HttpGetIssue k]
        \<and> trace (snd (get_task_cached E k (snd (get_task_cached E k s))))
            = trace s @ [HttpGetIssue k])
   \<and> trace (snd (get_task_cached E k (clear_task_cache s))) = trace s @ [HttpGetIssue k]
   \<and> run_iteration E assets s = process_assets_with_update E assets (s\<lparr>task_cache := Map.empty\<rparr>)"
  by (auto simp: get_task_cached_eq lookup_def clear_task_cache_def run_iteration_def)

theorem ticket_cache_single_fetch_witness:
  "task_cache state0 ''OPS-1'' = None
   \<and> issue_reply env0 ''OPS-1'' = None
   \<and> fst (get_task_cached env0 ''OPS-1'' state0) = None
   \<and> task_cache (snd (get_task_cached env0 ''OPS-1'' state0)) ''OPS-1'' = Some None
   \<and> trace (snd (get_task_cached env0 ''OPS-1'' (snd (get_task_cached env0 ''OPS-1'' state0))))
        = [HttpGetIssue ''OPS-1'']"
proof -
  have h: "task_cache state0 ''OPS-1'' = None" "trace state0 = []"
    by (simp_all add: state0_def)
  have r: "issue_reply env0 ''OPS-1'' = None"
    by (simp add: env0_def)
  show ?thesis
    using ticket_cache_single_fetch [where E = env0 and k = "''OPS-1''" and s = state0] h r
    by simp
qed

subsection \<open>Urgency classification\<close>



lemma dispatch_overdue:
  assumes "extract_update_date E (extract_attribute_values asset (attribute_map E)) = Ret (Some due)"
    and "due \<le> clock E (ticks s)"
  shows "process_asset_update E asset s =
    handle_overdue_asset E asset (extract_attribute_values asset (attribute_map E))
      (s\<lparr>ticks := Suc (ticks s)\<rparr>)"
proof -
  have "classify due (clock E (ticks s)) = Overdue"
    using assms(2) by (simp add: classify_def total_seconds_def Let_def divide_le_eq)
  then show ?thesis
    using assms(1) by (simp add: process_asset_update_def Let_def datetime_now_def)
qed

lemma extract_update_date_Some:
  assumes "extract_update_date E attributes = Ret (Some due)"
  obtains v where "first_value attributes ''Update'' = Ret v" "truthy v"
    "strptime E (py_str v) = Some due"
  using assms
  by (auto simp: extract_update_date_def split: res.splits if_splits)

subsection \<open>The attribute extractor\<close>

lemma extract_loop_append:
  "extract_loop amap (xs @ ys) acc = extract_loop amap ys (extract_loop amap xs acc)"
  by (induction xs arbitrary: acc) (simp_all split: option.splits)

lemma extract_loop_other:
  "\<forall>b\<in>set rest. amap (objectTypeAttributeId b) \<noteq> Some n \<Longrightarrow>
   extract_loop amap rest acc n = acc n"
  by (induction rest arbitrary: acc) (auto split: option.splits)

lemma extract_values_map:
  "\<forall>v\<in>set vs. val v \<noteq> None \<or> referencedObject v \<noteq> None \<Longrightarrow>
   extract_values vs =
     map (\<lambda>v. case val v of
                 Some x \<Rightarrow> x
               | None \<Rightarrow> (case label (the (referencedObject v)) of None \<Rightarrow> PNone | Some l \<Rightarrow> l))
       vs"
  by (induction vs) (auto split: option.splits)

text \<open>
  C10 (amended): for a raw attribute record whose id the attribute map sends to a non-empty
  name, and after which no record is sent to the same name, the extractor stores under that
  name the values extracted from the record's entries. When every entry has a \<open>value\<close> or
  a \<open>referencedObject\<close> field, there is one extracted value per entry, in order: the
  literal value when \<open>value\<close> is present, otherwise the label of the referenced object,
  and \<open>None\<close> when that object has no label. An entry with neither field adds nothing.
  So the first extracted value of a present attribute can be \<open>None\<close>.
\<close>

theorem extractor_values:
  "(amap (objectTypeAttributeId a) = Some n \<and> n \<noteq> []
      \<and> (\<forall>b\<in>set later. amap (objectTypeAttributeId b) \<noteq> Some n) \<longrightarrow>
    extract_attribute_values (Asset aid (Some (earlier @ a # later))) amap n
      = Some (extract_values (case objectAttributeValues a of None \<Rightarrow> [] | Some vs \<Rightarrow> vs)))
   \<and> ((\<forall>v\<in>set vs. val v \<noteq> None \<or> referencedObject v \<noteq> None) \<longrightarrow>
        extract_values vs =
          map (\<lambda>v. case val v of
                      Some x \<Rightarrow> x
                    | None \<Rightarrow>
                        (case label (the (referencedObject v)) of None \<Rightarrow> PNone | Some l \<Rightarrow> l))
            vs)
   \<and> extract_values (AttrValue None None # vs) = extract_values vs
   \<and> extract_values (AttrValue None (Some (RefObj None)) # vs) = PNone # extract_values vs
   \<and> (amap (objectTypeAttributeId a) = Some n \<and> n \<noteq> []
        \<and> (\<forall>b\<in>set later. amap (objectTypeAttributeId b) \<noteq> Some n)
        \<and> objectAttributeValues a = Some (AttrValue None (Some (RefObj None)) # vs) \<longrightarrow>
      first_value (extract_attribute_values (Asset aid (Some (earlier @ a # later))) amap) n
        = Ret PNone)"
proof -
  have a: "extract_attribute_values (Asset aid (Some (earlier @ a # later))) amap n
      = Some (extract_values (case objectAttributeValues a of None \<Rightarrow> [] | Some vs \<Rightarrow> vs))"
    if "amap (objectTypeAttributeId a) = Some n" "n \<noteq> []"
      "\<forall>b\<in>set later. amap (objectTypeAttributeId b) \<noteq> Some n"
    using that by (simp add: extract_attribute_values_def extract_loop_append extract_loop_other)
  have b: "first_value (extract_attribute_values (Asset aid (Some (earlier @ a # later))) amap) n
        = Ret PNone"
    if "amap (objectTypeAttributeId a) = Some n" "n \<noteq> []"
      "\<forall>b\<in>set later. amap (objectTypeAttributeId b) \<noteq> Some n"
      "objectAttributeValues a = Some (AttrValue None (Some (RefObj None)) # vs)"
    using a [OF that(1-3)] that(4) by (simp add: first_value_def)
  show ?thesis
    using a b extract_values_map [of vs] by simp
qed

theorem extractor_values_witness:
  "extract_attribute_values
      (Asset (Some ''A1'')
         (Some [RawAttr ''1'' (Some [AttrValue (Some (PStr ''Printer'')) None]),
                RawAttr ''3'' (Some [AttrValue None (Some (RefObj None)),
                                     AttrValue None (Some (RefObj (Some (PStr ''Bob''))))]),
                RawAttr ''2'' (Some [AttrValue (Some (PStr ''2024-01-01'')) None])]))
      (attribute_map env0) ''Primary Responsible Employee''
     = Some [PNone, PStr ''Bob'']
   \<and> first_value
        (extract_attribute_values
          (Asset (Some ''A1'')
             (Some [RawAttr ''1'' (Some [AttrValue (Some (PStr ''Printer'')) None]),
                    RawAttr ''3'' (Some [AttrValue None (Some (RefObj None)),
                                         AttrValue None (Some (RefObj (Some (PStr ''Bob''))))]),
                    RawAttr ''2'' (Some [AttrValue (Some (PStr ''2024-01-01'')) None])]))
          (attribute_map env0)) ''Primary Responsible Employee''
     = Ret PNone"
  using extractor_values [where amap = "attribute_map env0"
      and a = "RawAttr ''3'' (Some [AttrValue None (Some (RefObj None)),
                                    AttrValue None (Some (RefObj (Some (PStr ''Bob''))))])"
      and n = "''Primary Responsible Employee''"
      and later = "[RawAttr ''2'' (Some [AttrValue (Some (PStr ''2024-01-01'')) None])]"
      and earlier = "[RawAttr ''1'' (Some [AttrValue (Some (PStr ''Printer'')) None])]"
      and aid = "Some ''A1''"
      and vs = "[AttrValue None (Some (RefObj (Some (PStr ''Bob''))))]"]
  by (simp add: env0_def)

text \<open>
  Two records whose attribute ids are in the attribute map. A value entry with neither a
  \<open>value\<close> nor a \<open>referencedObject\<close> field is skipped: two entries give one extracted
  value. A record whose id is mapped to the empty name is dropped.
\<close>

theorem extractor_values_counterexample:
  "attribute_map env0 ''1'' = Some ''Name''
   \<and> extract_attribute_values
        (Asset (Some ''A1'')
           (Some [RawAttr ''1'' (Some [AttrValue None None,
                                       AttrValue (Some (PStr ''Printer'')) None])]))
        (attribute_map env0) ''Name''
      = Some [PStr ''Printer'']
   \<and> attribute_map env0 ''4'' = Some []
   \<and> dom (extract_attribute_values
        (Asset (Some ''A1'') (Some [RawAttr ''4'' (Some [AttrValue (Some (PStr ''x'')) None])]))
        (attribute_map env0)) = {}"
  by (simp add: env0_def extract_attribute_values_def)

subsection \<open>The link filter\<close>

lemma filter_update_issues_Cons:
  "filter_update_issues E (l # ls) s =
     (if is_task_for_update (lookup E s (key l))
      then l # fst (filter_update_issues E ls (snd (get_task_cached E (key l) s)))
      else fst (filter_update_issues E ls (snd (get_task_cached E (key l) s))),
      snd (filter_update_issues E ls (snd (get_task_cached E (key l) s))))"
  by (simp add: case_prod_beta get_task_cached_fst)

lemma filter_update_issues_fst:
  "fst (filter_update_issues E ls s) = filter (\<lambda>l. is_task_for_update (lookup E s (key l))) ls"
  by (induction ls arbitrary: s)
     (simp_all add: filter_update_issues_Cons get_task_cached_lookup del: filter_update_issues.simps(2))

lemma filter_update_issues_lookup:
  "lookup E (snd (filter_update_issues E ls s)) = lookup E s"
  by (induction ls arbitrary: s)
     (simp_all add: filter_update_issues_Cons get_task_cached_lookup del: filter_update_issues.simps(2))

lemma filter_update_issues_ticks:
  "ticks (snd (filter_update_issues E ls s)) = ticks s"
  by (induction ls arbitrary: s)
     (simp_all add: filter_update_issues_Cons get_task_cached_ticks del: filter_update_issues.simps(2))

lemma filter_update_issues_dom:
  "dom (task_cache (snd (filter_update_issues E ls s))) = key ` set ls \<union> dom (task_cache s)"
  by (induction ls arbitrary: s)
     (simp_all add: filter_update_issues_Cons get_task_cached_dom del: filter_update_issues.simps(2))

lemma filter_update_issues_trace:
  "\<exists>ks. trace (snd (filter_update_issues E ls s)) = trace s @ map HttpGetIssue ks"
proof (induction ls arbitrary: s)
  case Nil
  show ?case by simp
next
  case (Cons l ls)
  let ?s1 = "snd (get_task_cached E (key l) s)"
  have "trace ?s1 = trace s @ map HttpGetIssue (if task_cache s (key l) = None then [key l] else [])"
    by (simp add: get_task_cached_trace)
  moreover obtain k2 where
    "trace (snd (filter_update_issues E ls ?s1)) = trace ?s1 @ map HttpGetIssue k2"
    using Cons.IH [of ?s1] by blast
  ultimately have "trace (snd (filter_update_issues E (l # ls) s)) =
      trace s @ map HttpGetIssue ((if task_cache s (key l) = None then [key l] else []) @ k2)"
    by (simp add: filter_update_issues_Cons del: filter_update_issues.simps(2))
  then show ?case by blast
qed

lemma get_object_connected_tickets_eq:
  "get_object_connected_tickets E aid s = (linked E aid, emit (HttpGetTickets aid) s)"
  by (simp add: get_object_connected_tickets_def linked_def)

lemma fetch_and_filter:
  "(case get_object_connected_tickets E aid s of
      (linked_issues, s1) \<Rightarrow>
        (case filter_update_issues E linked_issues s1 of (update_issues, s2) \<Rightarrow> f update_issues s2))
   = f (update_links E s aid) (fetched E aid s)"
  by (simp add: get_object_connected_tickets_eq case_prod_beta filter_update_issues_fst
      update_links_def fetched_def lookup_emit)

lemma fetched_lookup: "lookup E (fetched E aid s) = lookup E s"
  by (simp add: fetched_def filter_update_issues_lookup lookup_emit)

lemma fetched_ticks: "ticks (fetched E aid s) = ticks s"
  by (simp add: fetched_def filter_update_issues_ticks emit_def)

lemma fetched_dom:
  "dom (task_cache (fetched E aid s)) = key ` set (linked E aid) \<union> dom (task_cache s)"
  by (simp add: fetched_def filter_update_issues_dom emit_def)

lemma fetched_trace:
  "\<exists>ks. trace (fetched E aid s) = trace s @ HttpGetTickets aid # map HttpGetIssue ks"
  using filter_update_issues_trace [of E "linked E aid" "emit (HttpGetTickets aid) s"]
  by (simp add: fetched_def emit_def)

lemma update_links_fetched: "update_links E (fetched E aid s) a = update_links E s a"
  by (simp add: update_links_def fetched_lookup)

lemma update_links_ticks: "update_links E (s\<lparr>ticks := n\<rparr>) = update_links E s"
  by (intro ext) (simp add: update_links_def lookup_ticks)

lemma update_links_subset: "set (update_links E s aid) \<subseteq> set (linked E aid)"
  by (auto simp: update_links_def)

subsection \<open>The lifecycle decider\<close>

lemma transition_task_by_name_eq:
  "transition_task_by_name E k nm s =
     (case offered E k nm of
        Some tid \<Rightarrow>
          (Ret (transition_reply E k tid),
           s\<lparr>trace := trace s @ [HttpGetTransitions k, HttpPostTransition k tid]\<rparr>)
      | None \<Rightarrow>
          (Raise (if transitions_reply E k = None then AttributeError else ValueError),
           s\<lparr>trace := trace s @ [HttpGetTransitions k]\<rparr>))"
  by (simp add: transition_task_by_name_def find_transition_by_name_def get_transitions_def
      transition_task_def emit_def offered_def split: option.splits)

lemma entered_eq:
  "entered E k s =
     s\<lparr>task_cache := (if task_cache s k = None then (task_cache s)(k \<mapsto> issue_reply E k)
                       else task_cache s),
       trace := trace s @ pre_decider s k\<rparr>"
  by (cases "task_cache s k") (simp_all add: entered_def get_task_cached_eq emit_def pre_decider_def)

lemma entered_lookup: "lookup E (entered E k s) = lookup E s"
  by (rule ext) (simp add: entered_eq lookup_def)

lemma entered_ticks: "ticks (entered E k s) = ticks s"
  by (simp add: entered_eq)

lemma entered_trace: "trace (entered E k s) = trace s @ pre_decider s k"
  by (simp add: entered_eq)

lemma decider_lookup:
  "get_task_cached E k (emit (Enter_process_linked_update_issue k) s) = (lookup E s k, entered E k s)"
  by (simp add: entered_def get_task_cached_eq lookup_def emit_def)

lemma decider_not_found:
  assumes "lookup E s (key issue) = None"
  shows "process_linked_update_issue E issue asset attributes s = (Ret (), entered E (key issue) s)"
  using assms by (simp add: process_linked_update_issue_def decider_lookup)

lemma decider_no_list:
  assumes "lookup E s (key issue) = Some task" and "first_value attributes ''Update'' = Raise e"
  shows "process_linked_update_issue E issue asset attributes s = (Raise e, entered E (key issue) s)"
  using assms by (simp add: process_linked_update_issue_def decider_lookup)

lemma decider_no_date:
  assumes "lookup E s (key issue) = Some task" and "first_value attributes ''Update'' = Ret v"
    and "\<not> truthy v \<or> strptime E (py_str v) = None"
  shows "process_linked_update_issue E issue asset attributes s = (Ret (), entered E (key issue) s)"
  using assms by (auto simp: process_linked_update_issue_def decider_lookup Let_def)

lemma decider_result:
  assumes "lookup E s (key issue) = Some task"
    and "first_value attributes ''Update'' = Ret v" and "truthy v"
    and "strptime E (py_str v) = Some due"
  shows "process_linked_update_issue E issue asset attributes s =
    (if task_status task \<noteq> ''Done'' \<and> task_status task \<noteq> ''In Progress''
        \<and> due \<le> clock E (ticks s) \<and> offered E (key issue) ''In Progress'' = None
     then Raise (if transitions_reply E (key issue) = None then AttributeError else ValueError)
     else Ret (),
     (entered E (key issue) s)
       \<lparr>trace := trace (entered E (key issue) s)
                @ decider_requests E (key issue) (task_status task) (py_str v) (due \<le> clock E (ticks s)),
        ticks := Suc (ticks s)\<rparr>)"
proof -
  have "process_linked_update_issue E issue asset attributes s =
    (let k = key issue; st = task_status task;
         s2 = (entered E k s)\<lparr>ticks := Suc (ticks s)\<rparr>
     in if st \<noteq> ''Done'' then
          if due \<le> clock E (ticks s) then
            if st \<noteq> ''In Progress'' then
              (case transition_task_by_name E k ''In Progress''
                      (emit (HttpPostComment k (COMMENT_REMINDER (py_str v))) s2) of
                 (Raise e, s4) \<Rightarrow> (Raise e, s4)
               | (Ret r, s4) \<Rightarrow> (Ret (), s4))
            else (Ret (), s2)
          else (Ret (), s2)
        else if due \<le> clock E (ticks s)
          then (Ret (), emit (HttpPostComment k COMMENT_REQUEST_UPDATE) s2)
          else (Ret (), s2))"
    using assms
    by (simp add: process_linked_update_issue_def decider_lookup Let_def datetime_now_def
        add_comment_def entered_ticks)
  then show ?thesis
    by (cases "offered E (key issue) ''In Progress''")
       (simp_all add: Let_def emit_def transition_task_by_name_eq decider_requests_def)
qed

lemma decider_requests_marks:
  "filter is_decider_call (decider_requests E k st d p) = []"
  "filter is_creator_call (decider_requests E k st d p) = []"
  "filter is_create (decider_requests E k st d p) = []"
  by (simp_all add: decider_requests_def split: option.splits)

lemma shape_idle:
  "s' = X \<Longrightarrow>
   \<exists>acts n. s' = X\<lparr>trace := trace X @ acts, ticks := n\<rparr>
    \<and> filter is_decider_call acts = [] \<and> filter is_creator_call acts = []
    \<and> filter is_create acts = []"
  by (intro exI [of _ "[]"] exI [of _ "ticks X"]) simp

lemma decider_shape:
  "\<exists>acts n. snd (process_linked_update_issue E issue asset attributes s) =
      (entered E (key issue) s)\<lparr>trace := trace (entered E (key issue) s) @ acts, ticks := n\<rparr>
    \<and> filter is_decider_call acts = [] \<and> filter is_creator_call acts = []
    \<and> filter is_create acts = []"
proof (cases "lookup E s (key issue)")
  case None
  show ?thesis by (rule shape_idle) (simp add: decider_not_found [OF None])
next
  case (Some task)
  show ?thesis
  proof (cases "first_value attributes ''Update''")
    case (Raise e)
    show ?thesis by (rule shape_idle) (simp add: decider_no_list [OF Some Raise])
  next
    case (Ret v)
    show ?thesis
    proof (cases "truthy v \<and> strptime E (py_str v) \<noteq> None")
      case False
      then have "\<not> truthy v \<or> strptime E (py_str v) = None" by blast
      then show ?thesis by (intro shape_idle) (simp add: decider_no_date [OF Some Ret])
    next
      case True
      then obtain due where d: "truthy v" "strptime E (py_str v) = Some due" by blast
      show ?thesis
        unfolding decider_result [OF Some Ret d]
        by (intro exI [of _ "decider_requests E (key issue) (task_status task) (py_str v)
              (due \<le> clock E (ticks s))"] exI [of _ "Suc (ticks s)"])
           (simp add: decider_requests_marks)
    qed
  qed
qed

lemma decider_trace:
  "\<exists>evs. trace (snd (process_linked_update_issue E issue asset attributes s)) =
            trace s @ Enter_process_linked_update_issue (key issue) # evs
     \<and> filter is_decider_call evs = [] \<and> filter is_creator_call evs = []
     \<and> filter is_create evs = []"
proof -
  obtain acts n where a:
    "snd (process_linked_update_issue E issue asset attributes s) =
      (entered E (key issue) s)\<lparr>trace := trace (entered E (key issue) s) @ acts, ticks := n\<rparr>"
    "filter is_decider_call acts = []" "filter is_creator_call acts = []"
    "filter is_create acts = []"
    using decider_shape [of E issue asset attributes s] by blast
  show ?thesis
    using a
    by (intro exI [of _ "(if task_cache s (key issue) = None then [HttpGetIssue (key issue)] else [])
          @ acts"])
       (simp add: entered_trace pre_decider_def)
qed


text \<open>
  C4 (amended): for a ticket the decider finds, with a due date that parses: when the status
  is neither \<open>Done\<close> nor \<open>In Progress\<close> and the due date is not after now, the
  reminder comment, which contains the due date, is posted and the transition named
  \<open>In Progress\<close> is then executed if the tracker offers one for the ticket; if it offers
  none, the comment is the only action and the decider raises. When the status is
  \<open>In Progress\<close> and the due date is not after now there is no action; when the status is
  \<open>Done\<close> and the due date is not after now the re-update comment is the only action;
  when the due date is after now there is no action.
\<close>

theorem decider_decision_table:
  assumes "lookup E s (key issue) = Some task"
    and "first_value attributes ''Update'' = Ret (PStr d)" and "d \<noteq> []"
    and "strptime E d = Some due"
  shows "(let R = process_linked_update_issue E issue asset attributes s;
              k = key issue; st = task_status task; now = clock E (ticks s);
              acts = filter is_action (new_events s (snd R))
          in (st \<noteq> ''Done'' \<and> st \<noteq> ''In Progress'' \<and> due \<le> now \<longrightarrow>
                (case offered E k ''In Progress'' of
                   Some tid \<Rightarrow>
                     fst R = Ret ()
                     \<and> acts = [HttpPostComment k (COMMENT_REMINDER d), HttpPostTransition k tid]
                 | None \<Rightarrow>
                     fst R \<noteq> Ret () \<and> acts = [HttpPostComment k (COMMENT_REMINDER d)]))
           \<and> (st = ''In Progress'' \<and> due \<le> now \<longrightarrow> fst R = Ret () \<and> acts = [])
           \<and> (st = ''Done'' \<and> due \<le> now \<longrightarrow>
                fst R = Ret () \<and> acts = [HttpPostComment k COMMENT_REQUEST_UPDATE])
           \<and> (now < due \<longrightarrow> fst R = Ret () \<and> acts = []))
         \<and> (\<exists>p q. COMMENT_REMINDER d = p @ d @ q)"
proof -
  have v: "truthy (PStr d)" "strptime E (py_str (PStr d)) = Some due"
    using assms(3,4) by simp_all
  note r = decider_result [OF assms(1,2) v]
  have n: "new_events s (snd (process_linked_update_issue E issue asset attributes s)) =
      pre_decider s (key issue)
      @ decider_requests E (key issue) (task_status task) d (due \<le> clock E (ticks s))"
    by (rule new_events_append) (simp add: r entered_trace)
  have c: "\<exists>p q. COMMENT_REMINDER d = p @ d @ q"
    unfolding COMMENT_REMINDER_def by blast
  show ?thesis
    unfolding Let_def n
    using c
    by (cases "offered E (key issue) ''In Progress''")
       (simp_all add: r pre_decider_def decider_requests_def)
qed

theorem decider_decision_table_witness:
  "fst (process_linked_update_issue env1 (LinkedIssue ''OPS-1'') asset1 attrs_past state0) = Ret ()
   \<and> filter is_action (new_events state0
        (snd (process_linked_update_issue env1 (LinkedIssue ''OPS-1'') asset1 attrs_past state0)))
      = [HttpPostComment ''OPS-1'' (COMMENT_REMINDER ''2024-01-01''),
         HttpPostTransition ''OPS-1'' ''21'']
   \<and> filter is_action (new_events state0
        (snd (process_linked_update_issue env1 (LinkedIssue ''OPS-2'') asset1 attrs_past state0)))
      = []
   \<and> filter is_action (new_events state0
        (snd (process_linked_update_issue env1 (LinkedIssue ''OPS-3'') asset1 attrs_past state0)))
      = [HttpPostComment ''OPS-3'' COMMENT_REQUEST_UPDATE]
   \<and> filter is_action (new_events state0
        (snd (process_linked_update_issue env1 (LinkedIssue ''OPS-1'') asset1 attrs_future state0)))
      = []"
proof -
  obtain t1 where t1: "lookup env1 state0 (key (LinkedIssue ''OPS-1'')) = Some t1"
      and s1: "task_status t1 = ''To Do''"
    by (simp add: scenario_lookup env1_simps ticket_def task_status_def)
  obtain t2 where t2: "lookup env1 state0 (key (LinkedIssue ''OPS-2'')) = Some t2"
      and s2: "task_status t2 = ''In Progress''"
    by (simp add: scenario_lookup env1_simps ticket_def task_status_def)
  obtain t3 where t3: "lookup env1 state0 (key (LinkedIssue ''OPS-3'')) = Some t3"
      and s3: "task_status t3 = ''Done''"
    by (simp add: scenario_lookup env1_simps ticket_def task_status_def)
  have ne: "''2024-01-01'' \<noteq> []" "''2025-01-01'' \<noteq> []" by simp_all
  show ?thesis
    using decider_decision_table [OF t1 scenario_dates(1) ne(1) scenario_dates(3), of asset1]
      decider_decision_table [OF t2 scenario_dates(1) ne(1) scenario_dates(3), of asset1]
      decider_decision_table [OF t3 scenario_dates(1) ne(1) scenario_dates(3), of asset1]
      decider_decision_table [OF t1 scenario_dates(2) ne(2) scenario_dates(4), of asset1]
    by (simp add: Let_def s1 s2 s3 env1_simps state0_simps scenario_offered)
qed

text \<open>
  The ticket \<open>OPS-4\<close> has status \<open>Blocked\<close> and its workflow offers no transition
  named \<open>In Progress\<close>: the reminder is posted, the ticket is not transitioned, and the
  decider raises ValueError.
\<close>

theorem decider_untransitioned_counterexample:
  "task_status (the (lookup env1 state0 ''OPS-4'')) = ''Blocked''
   \<and> the (strptime env1 ''2024-01-01'') \<le> clock env1 (ticks state0)
   \<and> process_linked_update_issue env1 (LinkedIssue ''OPS-4'') asset1 attrs_past state0 =
       (Raise ValueError,
        \<lparr>task_cache = [''OPS-4'' \<mapsto> ticket ''Blocked'' [''AssetUpdate'']],
         trace = [Enter_process_linked_update_issue ''OPS-4'', HttpGetIssue ''OPS-4'',
                  HttpPostComment ''OPS-4'' (COMMENT_REMINDER ''2024-01-01''),
                  HttpGetTransitions ''OPS-4''],
         ticks = 1\<rparr>)"
proof -
  obtain t4 where t4: "lookup env1 state0 (key (LinkedIssue ''OPS-4'')) = Some t4"
      and s4: "task_status t4 = ''Blocked''"
    by (simp add: scenario_lookup env1_simps ticket_def task_status_def)
  have v: "truthy (PStr ''2024-01-01'')"
    "strptime env1 (py_str (PStr ''2024-01-01'')) = Some 1704067200000000"
    by (simp_all add: scenario_dates)
  have l: "the (lookup env1 state0 ''OPS-4'') = t4"
    using t4 by simp
  show ?thesis
    unfolding decider_result [OF t4 scenario_dates(1) v] l
    using s4
    by (simp add: scenario_offered env1_simps strptime0_def entered_eq pre_decider_def
        decider_requests_def state0_def)
qed

text \<open>
  C8: when the first value of the \<open>Update\<close> attribute is missing (\<open>None\<close> or the
  empty string) or \<open>strptime\<close> rejects it, the decider returns having sent nothing but
  the cache lookup of its ticket: no comment, no transition, no creation; an empty list of
  values makes it raise, again with no action. With a parsed date,
  every status other than the exact string \<open>Done\<close> takes the not-Done branches: the
  reminder and the transition when the date has passed and the status is not exactly
  \<open>In Progress\<close>, and nothing otherwise.
\<close>

theorem decider_date_and_status:
  "(let R = process_linked_update_issue E issue asset attributes s; k = key issue;
        acts = filter is_action (new_events s (snd R))
    in (first_value attributes ''Update'' = Ret v
          \<and> (\<not> truthy v \<or> strptime E (py_str v) = None) \<longrightarrow>
        fst R = Ret () \<and> new_events s (snd R) = pre_decider s k \<and> acts = [])
     \<and> (first_value attributes ''Update'' = Raise e \<longrightarrow> acts = [])
     \<and> (lookup E s k = Some task \<and> first_value attributes ''Update'' = Ret v \<and> truthy v
          \<and> strptime E (py_str v) = Some due \<and> task_status task \<noteq> ''Done'' \<longrightarrow>
        acts = (if due \<le> clock E (ticks s) \<and> task_status task \<noteq> ''In Progress''
                then HttpPostComment k (COMMENT_REMINDER (py_str v)) #
                     (case offered E k ''In Progress'' of
                        Some tid \<Rightarrow> [HttpPostTransition k tid]
                      | None \<Rightarrow> [])
                else [])))"
proof -
  let ?R = "process_linked_update_issue E issue asset attributes s"
  have a: "fst ?R = Ret () \<and> new_events s (snd ?R) = pre_decider s (key issue)
      \<and> filter is_action (new_events s (snd ?R)) = []"
    if f: "first_value attributes ''Update'' = Ret v"
      and n: "\<not> truthy v \<or> strptime E (py_str v) = None"
  proof -
    have "?R = (Ret (), entered E (key issue) s)"
    proof (cases "lookup E s (key issue)")
      case None
      then show ?thesis by (rule decider_not_found)
    next
      case (Some t)
      then show ?thesis using f n by (rule decider_no_date)
    qed
    moreover have "new_events s (entered E (key issue) s) = pre_decider s (key issue)"
      by (rule new_events_append) (rule entered_trace)
    ultimately show ?thesis by (simp add: pre_decider_def)
  qed
  have b: "filter is_action (new_events s (snd ?R)) =
        (if due \<le> clock E (ticks s) \<and> task_status task \<noteq> ''In Progress''
         then HttpPostComment (key issue) (COMMENT_REMINDER (py_str v)) #
              (case offered E (key issue) ''In Progress'' of
                 Some tid \<Rightarrow> [HttpPostTransition (key issue) tid]
               | None \<Rightarrow> [])
         else [])"
    if l: "lookup E s (key issue) = Some task"
      and f: "first_value attributes ''Update'' = Ret v" and t: "truthy v"
      and p: "strptime E (py_str v) = Some due" and d: "task_status task \<noteq> ''Done''"
  proof -
    have "new_events s (snd ?R) =
        pre_decider s (key issue)
        @ decider_requests E (key issue) (task_status task) (py_str v) (due \<le> clock E (ticks s))"
      by (rule new_events_append) (simp add: decider_result [OF l f t p] entered_trace)
    then show ?thesis
      using d by (simp add: pre_decider_def decider_requests_def split: option.splits)
  qed
  have c: "filter is_action (new_events s (snd ?R)) = []"
    if f: "first_value attributes ''Update'' = Raise e"
  proof -
    have "snd ?R = entered E (key issue) s"
    proof (cases "lookup E s (key issue)")
      case None
      then show ?thesis by (simp add: decider_not_found)
    next
      case (Some t)
      then show ?thesis using f by (simp add: decider_no_list)
    qed
    moreover have "new_events s (entered E (key issue) s) = pre_decider s (key issue)"
      by (rule new_events_append) (rule entered_trace)
    ultimately show ?thesis by (simp add: pre_decider_def)
  qed
  show ?thesis
    unfolding Let_def using a b c by blast
qed

theorem decider_date_and_status_witness:
  "first_value [''Update'' \<mapsto> [PNone]] ''Update'' = Ret PNone
   \<and> fst (process_linked_update_issue env1 (LinkedIssue ''OPS-1'') asset1
            [''Update'' \<mapsto> [PNone]] state0) = Ret ()
   \<and> new_events state0 (snd (process_linked_update_issue env1 (LinkedIssue ''OPS-1'') asset1
            [''Update'' \<mapsto> [PNone]] state0))
      = [Enter_process_linked_update_issue ''OPS-1'', HttpGetIssue ''OPS-1'']
   \<and> strptime env1 ''01/02/2024'' = None
   \<and> new_events state0 (snd (process_linked_update_issue env1 (LinkedIssue ''OPS-1'') asset1
            [''Update'' \<mapsto> [PStr ''01/02/2024'']] state0))
      = [Enter_process_linked_update_issue ''OPS-1'', HttpGetIssue ''OPS-1'']
   \<and> filter is_action (new_events state0
        (snd (process_linked_update_issue env1 (LinkedIssue ''OPS-4'') asset1 attrs_past state0)))
      = [HttpPostComment ''OPS-4'' (COMMENT_REMINDER ''2024-01-01'')]
   \<and> filter is_action (new_events state0
        (snd (process_linked_update_issue env1 (LinkedIssue ''OPS-5'') asset1 attrs_past state0)))
      = [HttpPostComment ''OPS-5'' (COMMENT_REMINDER ''2024-01-01''),
         HttpPostTransition ''OPS-5'' ''21'']"
proof -
  have f1: "first_value [''Update'' \<mapsto> [PNone]] ''Update'' = Ret PNone"
    and f2: "first_value [''Update'' \<mapsto> [PStr ''01/02/2024'']] ''Update'' = Ret (PStr ''01/02/2024'')"
    by (simp_all add: first_value_def)
  have p: "strptime env1 ''01/02/2024'' = None"
    by (simp add: env1_simps strptime0_def)
  obtain t4 where t4: "lookup env1 state0 (key (LinkedIssue ''OPS-4'')) = Some t4"
      and s4: "task_status t4 = ''Blocked''"
    by (simp add: scenario_lookup env1_simps ticket_def task_status_def)
  obtain t5 where t5: "lookup env1 state0 (key (LinkedIssue ''OPS-5'')) = Some t5"
      and s5: "task_status t5 = ''done''"
    by (simp add: scenario_lookup env1_simps ticket_def task_status_def)
  show ?thesis
    using
      decider_date_and_status [where E = env1 and issue = "LinkedIssue ''OPS-1''"
        and asset = asset1 and attributes = "[''Update'' \<mapsto> [PNone]]" and s = state0
        and v = PNone and task = t4 and due = 0]
      decider_date_and_status [where E = env1 and issue = "LinkedIssue ''OPS-1''"
        and asset = asset1 and attributes = "[''Update'' \<mapsto> [PStr ''01/02/2024'']]"
        and s = state0 and v = "PStr ''01/02/2024''" and task = t4 and due = 0]
      decider_date_and_status [where E = env1 and issue = "LinkedIssue ''OPS-4''"
        and asset = asset1 and attributes = attrs_past and s = state0
        and v = "PStr ''2024-01-01''" and task = t4 and due = 1704067200000000]
      decider_date_and_status [where E = env1 and issue = "LinkedIssue ''OPS-5''"
        and asset = asset1 and attributes = attrs_past and s = state0
        and v = "PStr ''2024-01-01''" and task = t5 and due = 1704067200000000]
      f1 f2 p t4 s4 t5 s5
    by (simp add: Let_def scenario_dates scenario_offered pre_decider_def state0_simps env1_simps(1))
qed

subsection \<open>The remediation creator\<close>

lemma creator_unconfigured:
  assumes "\<not> (\<exists>w p aid. JIRA_WORKSPACE_ID E = Some w \<and> w \<noteq> [] \<and> JIRA_PROJECT_KEY E = Some p
              \<and> p \<noteq> [] \<and> asset_id asset = Some aid \<and> aid \<noteq> [])"
  shows "create_update_task E asset attributes flag s =
           (Ret (), emit (Enter_create_update_task flag) s)"
  using assms
  by (auto simp: create_update_task_def Let_def split: option.splits)

lemma creator_eq:
  assumes "JIRA_WORKSPACE_ID E = Some w" "w \<noteq> []" "JIRA_PROJECT_KEY E = Some p" "p \<noteq> []"
    and "asset_id asset = Some aid" "aid \<noteq> []"
  shows "create_update_task E asset attributes flag s =
    (if update_links E s aid \<noteq> [] then (Ret (), prepared E aid flag s)
     else
       (case first_value attributes ''Name'' of
          Raise e \<Rightarrow> (Raise e, prepared E aid flag s)
        | Ret asset_name \<Rightarrow>
            if \<not> truthy asset_name then (Ret (), prepared E aid flag s)
            else
              (case first_value attributes ''Update'' of
                 Raise e \<Rightarrow> (Raise e, prepared E aid flag s)
               | Ret due \<Rightarrow>
                   if \<not> truthy due then (Ret (), prepared E aid flag s)
                   else
                     (case extract_assignee_name attributes of
                        Raise e \<Rightarrow> (Raise e, prepared E aid flag s)
                      | Ret assignee_name \<Rightarrow>
                          (Ret (),
                           emit (HttpPostIssue
                              \<lparr>project = p,
                               summary = TASK_SUMMARY_TEMPLATE (py_str asset_name),
                               description = TASK_DESCRIPTION_TEMPLATE (py_str asset_name),
                               issuetype = ''Task'',
                               assignee = assignee_for E assignee_name,
                               duedate = Some (py_str due),
                               issue_labels = Some [''AssetUpdate''],
                               customfield_10191 = Some (w, w @ '':'' @ aid, aid)\<rparr>)
                             (prepared E aid flag s))))))"
proof -
  have u: "update_links E (emit (Enter_create_update_task flag) s) aid = update_links E s aid"
    by (simp add: update_links_def lookup_emit)
  have t: "truthy d \<Longrightarrow> py_str d \<noteq> []" for d
    by (cases d) simp_all
  have a: "(case (if truthy n then ASSIGNEE_MAPPING E (py_str n) else None) of
             None \<Rightarrow> None
           | Some a \<Rightarrow> if jid_truthy a \<and> a \<noteq> IdNum 0 then Some a else None)
           = assignee_for E n" for n
    by (auto simp: assignee_for_def split: option.splits)
  have b: "(case assignee_for E n of None \<Rightarrow> None
            | Some a \<Rightarrow> if jid_truthy a then Some a else None) = assignee_for E n" for n
    by (auto simp: assignee_for_def split: option.splits)
  show ?thesis
    using assms
    by (simp add: create_update_task_def Let_def fetch_and_filter u prepared_def create_task_def
        TASK_SUMMARY_TEMPLATE_def TASK_DESCRIPTION_TEMPLATE_def t a b
        split: res.splits)
qed

lemma prepared_trace:
  "\<exists>ks. trace (prepared E aid flag s) =
     trace s @ Enter_create_update_task flag # HttpGetTickets aid # map HttpGetIssue ks"
  using fetched_trace [of E aid "emit (Enter_create_update_task flag) s"]
  by (simp add: prepared_def emit_def)

lemma creator_shape:
  "\<exists>evs. trace (snd (create_update_task E asset attributes flag s)) =
            trace s @ Enter_create_update_task flag # evs
     \<and> filter is_creator_call evs = [] \<and> filter is_decider_call evs = []
     \<and> (filter is_action evs = []
         \<or> (\<exists>f w p aid n d an.
               filter is_action evs = [HttpPostIssue f]
             \<and> fst (create_update_task E asset attributes flag s) = Ret ()
             \<and> JIRA_WORKSPACE_ID E = Some w \<and> JIRA_PROJECT_KEY E = Some p
             \<and> asset_id asset = Some aid \<and> update_links E s aid = []
             \<and> first_value attributes ''Name'' = Ret (PStr n) \<and> n \<noteq> []
             \<and> first_value attributes ''Update'' = Ret (PStr d) \<and> d \<noteq> []
             \<and> extract_assignee_name attributes = Ret an
             \<and> f = \<lparr>project = p, summary = TASK_SUMMARY_TEMPLATE n,
                     description = TASK_DESCRIPTION_TEMPLATE n, issuetype = ''Task'',
                     assignee = assignee_for E an, duedate = Some d,
                     issue_labels = Some [''AssetUpdate''],
                     customfield_10191 = Some (w, w @ '':'' @ aid, aid)\<rparr>))"
proof (cases "\<exists>w p aid. JIRA_WORKSPACE_ID E = Some w \<and> w \<noteq> [] \<and> JIRA_PROJECT_KEY E = Some p
              \<and> p \<noteq> [] \<and> asset_id asset = Some aid \<and> aid \<noteq> []")
  case False
  show ?thesis
    unfolding creator_unconfigured [OF False]
    by (intro exI [of _ "[]"]) (simp add: emit_def)
next
  case True
  then obtain w p aid where c: "JIRA_WORKSPACE_ID E = Some w" "w \<noteq> []"
    "JIRA_PROJECT_KEY E = Some p" "p \<noteq> []" "asset_id asset = Some aid" "aid \<noteq> []"
    by blast
  obtain ks where ks: "trace (prepared E aid flag s) =
     trace s @ Enter_create_update_task flag # HttpGetTickets aid # map HttpGetIssue ks"
    using prepared_trace by blast
  let ?pre = "HttpGetTickets aid # map HttpGetIssue ks"
  have pre: "filter is_creator_call ?pre = []" "filter is_decider_call ?pre = []"
    "filter is_action ?pre = []"
    by (induction ks) simp_all
  have idle: ?thesis if "create_update_task E asset attributes flag s = (r, prepared E aid flag s)"
    for r
    using that ks pre by (intro exI [of _ ?pre]) simp
  show ?thesis
  proof (cases "update_links E s aid \<noteq> []")
    case True
    then show ?thesis by (intro idle) (simp add: creator_eq [OF c])
  next
    case no_links: False
    show ?thesis
    proof (cases "first_value attributes ''Name''")
      case (Raise e)
      then show ?thesis using no_links by (intro idle) (simp add: creator_eq [OF c])
    next
      case name: (Ret nm)
      show ?thesis
      proof (cases "truthy nm")
        case False
        then show ?thesis using no_links name by (intro idle) (simp add: creator_eq [OF c])
      next
        case tn: True
        then obtain n where n: "nm = PStr n" "n \<noteq> []" by (cases nm) simp_all
        show ?thesis
        proof (cases "first_value attributes ''Update''")
          case (Raise e)
          then show ?thesis
            using no_links name tn by (intro idle) (simp add: creator_eq [OF c])
        next
          case due: (Ret dv)
          show ?thesis
          proof (cases "truthy dv")
            case False
            then show ?thesis
              using no_links name tn due by (intro idle) (simp add: creator_eq [OF c])
          next
            case td: True
            then obtain d where d: "dv = PStr d" "d \<noteq> []" by (cases dv) simp_all
            show ?thesis
            proof (cases "extract_assignee_name attributes")
              case (Raise e)
              then show ?thesis
                using no_links name tn due td by (intro idle) (simp add: creator_eq [OF c])
            next
              case (Ret an)
              let ?f = "\<lparr>project = p, summary = TASK_SUMMARY_TEMPLATE n,
                     description = TASK_DESCRIPTION_TEMPLATE n, issuetype = ''Task'',
                     assignee = assignee_for E an, duedate = Some d,
                     issue_labels = Some [''AssetUpdate''],
                     customfield_10191 = Some (w, w @ '':'' @ aid, aid)\<rparr>"
              have r: "create_update_task E asset attributes flag s =
                  (Ret (), emit (HttpPostIssue ?f) (prepared E aid flag s))"
                using no_links name tn due td Ret n d by (simp add: creator_eq [OF c])
              show ?thesis
                unfolding r
                using ks pre c no_links name due Ret n d
                by (intro exI [of _ "?pre @ [HttpPostIssue ?f]"]) (simp add: emit_def)
            qed
          qed
        qed
      qed
    qed
  qed
qed

lemma creator_posts:
  obtains (none)
    "filter is_create (new_events s (snd (create_update_task E asset attributes flag s))) = []"
  | (one) w p aid n d an where
      "filter is_create (new_events s (snd (create_update_task E asset attributes flag s)))
          = [HttpPostIssue
               \<lparr>project = p, summary = TASK_SUMMARY_TEMPLATE n,
                description = TASK_DESCRIPTION_TEMPLATE n, issuetype = ''Task'',
                assignee = assignee_for E an, duedate = Some d,
                issue_labels = Some [''AssetUpdate''],
                customfield_10191 = Some (w, w @ '':'' @ aid, aid)\<rparr>]"
      "fst (create_update_task E asset attributes flag s) = Ret ()"
      "JIRA_WORKSPACE_ID E = Some w" "JIRA_PROJECT_KEY E = Some p"
      "asset_id asset = Some aid" "update_links E s aid = []"
      "first_value attributes ''Name'' = Ret (PStr n)" "n \<noteq> []"
      "first_value attributes ''Update'' = Ret (PStr d)" "d \<noteq> []"
      "extract_assignee_name attributes = Ret an"
proof -
  let ?R = "create_update_task E asset attributes flag s"
  obtain evs where t: "trace (snd ?R) = trace s @ Enter_create_update_task flag # evs"
    and a: "filter is_action evs = []
         \<or> (\<exists>f w p aid n d an.
               filter is_action evs = [HttpPostIssue f]
             \<and> fst ?R = Ret ()
             \<and> JIRA_WORKSPACE_ID E = Some w \<and> JIRA_PROJECT_KEY E = Some p
             \<and> asset_id asset = Some aid \<and> update_links E s aid = []
             \<and> first_value attributes ''Name'' = Ret (PStr n) \<and> n \<noteq> []
             \<and> first_value attributes ''Update'' = Ret (PStr d) \<and> d \<noteq> []
             \<and> extract_assignee_name attributes = Ret an
             \<and> f = \<lparr>project = p, summary = TASK_SUMMARY_TEMPLATE n,
                     description = TASK_DESCRIPTION_TEMPLATE n, issuetype = ''Task'',
                     assignee = assignee_for E an, duedate = Some d,
                     issue_labels = Some [''AssetUpdate''],
                     customfield_10191 = Some (w, w @ '':'' @ aid, aid)\<rparr>)"
    using creator_shape [of E asset attributes flag s] by blast
  have n: "new_events s (snd ?R) = Enter_create_update_task flag # evs"
    by (rule new_events_append) (rule t)
  have "filter is_create (new_events s (snd ?R)) = filter is_create evs"
    by (simp add: n)
  then have c: "filter is_create (new_events s (snd ?R)) = filter is_create (filter is_action evs)"
    by (simp only: filter_create_action)
  from a show ?thesis
  proof
    assume "filter is_action evs = []"
    then show ?thesis using c none by simp
  next
    assume "\<exists>f w p aid n d an.
               filter is_action evs = [HttpPostIssue f]
             \<and> fst ?R = Ret ()
             \<and> JIRA_WORKSPACE_ID E = Some w \<and> JIRA_PROJECT_KEY E = Some p
             \<and> asset_id asset = Some aid \<and> update_links E s aid = []
             \<and> first_value attributes ''Name'' = Ret (PStr n) \<and> n \<noteq> []
             \<and> first_value attributes ''Update'' = Ret (PStr d) \<and> d \<noteq> []
             \<and> extract_assignee_name attributes = Ret an
             \<and> f = \<lparr>project = p, summary = TASK_SUMMARY_TEMPLATE n,
                     description = TASK_DESCRIPTION_TEMPLATE n, issuetype = ''Task'',
                     assignee = assignee_for E an, duedate = Some d,
                     issue_labels = Some [''AssetUpdate''],
                     customfield_10191 = Some (w, w @ '':'' @ aid, aid)\<rparr>"
    then obtain f w p aid n d an where h:
      "filter is_action evs = [HttpPostIssue f]" "fst ?R = Ret ()"
      "JIRA_WORKSPACE_ID E = Some w" "JIRA_PROJECT_KEY E = Some p"
      "asset_id asset = Some aid" "update_links E s aid = []"
      "first_value attributes ''Name'' = Ret (PStr n)" "n \<noteq> []"
      "first_value attributes ''Update'' = Ret (PStr d)" "d \<noteq> []"
      "extract_assignee_name attributes = Ret an"
      "f = \<lparr>project = p, summary = TASK_SUMMARY_TEMPLATE n,
                     description = TASK_DESCRIPTION_TEMPLATE n, issuetype = ''Task'',
                     assignee = assignee_for E an, duedate = Some d,
                     issue_labels = Some [''AssetUpdate''],
                     customfield_10191 = Some (w, w @ '':'' @ aid, aid)\<rparr>"
      by blast
    have "filter is_create (new_events s (snd ?R)) = [HttpPostIssue f]"
      using c h(1) by simp
    then show ?thesis
      using h(2-11) unfolding h(12) by (rule one)
  qed
qed

lemma creator_linked:
  assumes "asset_id asset = Some aid" "update_links E s aid \<noteq> []"
  shows "fst (create_update_task E asset attributes flag s) = Ret ()"
    and "\<exists>evs. trace (snd (create_update_task E asset attributes flag s)) =
            trace s @ Enter_create_update_task flag # evs
          \<and> filter is_action evs = [] \<and> filter is_creator_call evs = []
          \<and> filter is_decider_call evs = []"
proof -
  show "fst (create_update_task E asset attributes flag s) = Ret ()"
  proof (cases "\<exists>w p aid. JIRA_WORKSPACE_ID E = Some w \<and> w \<noteq> [] \<and> JIRA_PROJECT_KEY E = Some p
              \<and> p \<noteq> [] \<and> asset_id asset = Some aid \<and> aid \<noteq> []")
    case False
    show ?thesis by (simp add: creator_unconfigured [OF False])
  next
    case True
    then obtain w p where c: "JIRA_WORKSPACE_ID E = Some w" "w \<noteq> []"
      "JIRA_PROJECT_KEY E = Some p" "p \<noteq> []" "asset_id asset = Some aid" "aid \<noteq> []"
      using assms(1) by auto
    show ?thesis using assms(2) by (simp add: creator_eq [OF c])
  qed
  show "\<exists>evs. trace (snd (create_update_task E asset attributes flag s)) =
            trace s @ Enter_create_update_task flag # evs
          \<and> filter is_action evs = [] \<and> filter is_creator_call evs = []
          \<and> filter is_decider_call evs = []"
    using creator_shape [of E asset attributes flag s] assms by auto
qed

text \<open>
  C7: the creator posts no issue when the first value of the \<open>Name\<close> or of the
  \<open>Update\<close> attribute is missing; every issue it posts carries the label
  \<open>AssetUpdate\<close> and the asset's \<open>Update\<close> value as its due date; and when every
  precondition holds and the responsible person's name has no entry in the assignee mapping,
  or is mapped to the number 0, the creator returns normally having posted one issue that
  has no assignee.
\<close>

theorem creator_submissions:
  "(let R = create_update_task E asset attributes flag s;
        posts = filter is_create (new_events s (snd R))
    in ((\<not> (\<exists>n. first_value attributes ''Name'' = Ret (PStr n) \<and> n \<noteq> [])
          \<or> \<not> (\<exists>d. first_value attributes ''Update'' = Ret (PStr d) \<and> d \<noteq> []))
        \<longrightarrow> posts = [])
     \<and> (\<forall>f. HttpPostIssue f \<in> set posts \<longrightarrow>
            issue_labels f = Some [''AssetUpdate'']
          \<and> (\<exists>d. first_value attributes ''Update'' = Ret (PStr d) \<and> duedate f = Some d))
     \<and> (JIRA_WORKSPACE_ID E = Some w \<and> w \<noteq> [] \<and> JIRA_PROJECT_KEY E = Some p \<and> p \<noteq> []
          \<and> asset_id asset = Some aid \<and> aid \<noteq> [] \<and> update_links E s aid = []
          \<and> first_value attributes ''Name'' = Ret (PStr n) \<and> n \<noteq> []
          \<and> first_value attributes ''Update'' = Ret (PStr d) \<and> d \<noteq> []
          \<and> extract_assignee_name attributes = Ret (PStr responsible)
          \<and> (ASSIGNEE_MAPPING E responsible = None
              \<or> ASSIGNEE_MAPPING E responsible = Some (IdNum 0))
        \<longrightarrow> fst R = Ret ()
          \<and> (\<exists>f. posts = [HttpPostIssue f] \<and> assignee f = None \<and> duedate f = Some d
                \<and> issue_labels f = Some [''AssetUpdate''] \<and> summary f = ''Update '' @ n)))"
proof -
  let ?R = "create_update_task E asset attributes flag s"
  let ?posts = "filter is_create (new_events s (snd ?R))"
  have a: "?posts = []"
    if "\<not> (\<exists>n. first_value attributes ''Name'' = Ret (PStr n) \<and> n \<noteq> [])
          \<or> \<not> (\<exists>d. first_value attributes ''Update'' = Ret (PStr d) \<and> d \<noteq> [])"
    using that by (cases rule: creator_posts [of s E asset attributes flag]) auto
  have b: "issue_labels f = Some [''AssetUpdate'']
          \<and> (\<exists>d. first_value attributes ''Update'' = Ret (PStr d) \<and> duedate f = Some d)"
    if "HttpPostIssue f \<in> set ?posts" for f
    using that by (cases rule: creator_posts [of s E asset attributes flag]) auto
  have c: "fst ?R = Ret ()
          \<and> (\<exists>f. ?posts = [HttpPostIssue f] \<and> assignee f = None \<and> duedate f = Some d
                \<and> issue_labels f = Some [''AssetUpdate''] \<and> summary f = ''Update '' @ n)"
    if h: "JIRA_WORKSPACE_ID E = Some w" "w \<noteq> []" "JIRA_PROJECT_KEY E = Some p" "p \<noteq> []"
          "asset_id asset = Some aid" "aid \<noteq> []"
      and u: "update_links E s aid = []"
      and f: "first_value attributes ''Name'' = Ret (PStr n)" "n \<noteq> []"
          "first_value attributes ''Update'' = Ret (PStr d)" "d \<noteq> []"
          "extract_assignee_name attributes = Ret (PStr responsible)"
      and m: "ASSIGNEE_MAPPING E responsible = None
              \<or> ASSIGNEE_MAPPING E responsible = Some (IdNum 0)"
  proof -
    have an: "assignee_for E (PStr responsible) = None"
      using m by (auto simp: assignee_for_def)
    obtain ks where ks: "trace (prepared E aid flag s) =
       trace s @ Enter_create_update_task flag # HttpGetTickets aid # map HttpGetIssue ks"
      using prepared_trace by blast
    have g: "filter is_create (map HttpGetIssue ks) = []"
      by (induction ks) simp_all
    let ?f = "\<lparr>project = p, summary = TASK_SUMMARY_TEMPLATE n,
               description = TASK_DESCRIPTION_TEMPLATE n, issuetype = ''Task'',
               assignee = None, duedate = Some d,
               issue_labels = Some [''AssetUpdate''],
               customfield_10191 = Some (w, w @ '':'' @ aid, aid)\<rparr>"
    have r: "?R = (Ret (), emit (HttpPostIssue ?f) (prepared E aid flag s))"
      using u f an by (simp add: creator_eq [OF h])
    have "new_events s (snd ?R) =
        Enter_create_update_task flag # HttpGetTickets aid # map HttpGetIssue ks @ [HttpPostIssue ?f]"
      by (rule new_events_append) (simp add: r emit_def ks)
    then have "?posts = [HttpPostIssue ?f]"
      using g by simp
    then show ?thesis
      by (simp add: r TASK_SUMMARY_TEMPLATE_def)
  qed
  show ?thesis
    unfolding Let_def using a b c by blast
qed

theorem creator_submissions_witness:
  "(\<exists>f. filter is_create (new_events state0
           (snd (create_update_task env1 asset1 (attrs_of ''2024-01-01'') True state0)))
          = [HttpPostIssue f]
        \<and> assignee f = None \<and> duedate f = Some ''2024-01-01''
        \<and> issue_labels f = Some [''AssetUpdate''] \<and> summary f = ''Update Printer'')
   \<and> fst (create_update_task env1 asset1 (attrs_of ''2024-01-01'') True state0) = Ret ()
   \<and> filter is_create (new_events state0
        (snd (create_update_task env1 asset1 [''Update'' \<mapsto> [PStr ''2024-01-01'']] True state0)))
      = []"
proof -
  have h: "JIRA_WORKSPACE_ID env1 = Some ''ws''" "JIRA_PROJECT_KEY env1 = Some ''OPS''"
    "asset_id asset1 = Some ''A1''" "update_links env1 state0 ''A1'' = []"
    "first_value (attrs_of ''2024-01-01'') ''Name'' = Ret (PStr ''Printer'')"
    "first_value (attrs_of ''2024-01-01'') ''Update'' = Ret (PStr ''2024-01-01'')"
    "extract_assignee_name (attrs_of ''2024-01-01'') = Ret (PStr ''Bob'')"
    "ASSIGNEE_MAPPING env1 ''Bob'' = Some (IdNum 0)"
    by (simp_all add: scenario_defs update_links_def linked_def first_value_def
        extract_assignee_name_def)
  have n: "\<not> (\<exists>n. first_value [''Update'' \<mapsto> [PStr ''2024-01-01'']] ''Name'' = Ret (PStr n)
              \<and> n \<noteq> [])"
    by (simp add: first_value_def)
  show ?thesis
    using
      creator_submissions [where E = env1 and asset = asset1
        and attributes = "attrs_of ''2024-01-01''" and flag = True and s = state0
        and w = "''ws''" and p = "''OPS''" and aid = "''A1''" and n = "''Printer''"
        and d = "''2024-01-01''" and responsible = "''Bob''"]
      creator_submissions [where E = env1 and asset = asset1
        and attributes = "[''Update'' \<mapsto> [PStr ''2024-01-01'']]" and flag = True
        and s = state0 and w = "''ws''" and p = "''OPS''" and aid = "''A1''"
        and n = "''Printer''" and d = "''2024-01-01''" and responsible = "''Bob''"]
      h n
    by (simp add: Let_def)
qed

subsection \<open>Due-soon assets\<close>

lemma is_active_iff:
  "is_active task \<longleftrightarrow>
     (\<exists>t. task = Some t \<and> (task_status t = ''TO DO'' \<or> task_status t = ''In Progress''))"
  by (cases task) (auto simp: is_active_def active_statuses_def)

lemma find_active_issue_cached:
  "key ` set ls \<subseteq> dom (task_cache s) \<Longrightarrow>
   find_active_issue E ls s = (\<exists>l\<in>set ls. is_active (lookup E s (key l)), s)"
proof (induction ls)
  case Nil
  show ?case by simp
next
  case (Cons l ls)
  have g: "get_task_cached E (key l) s = (lookup E s (key l), s)"
    using Cons.prems by (intro get_task_cached_known) simp
  have ih: "find_active_issue E ls s = (\<exists>l\<in>set ls. is_active (lookup E s (key l)), s)"
    using Cons by simp
  show ?case
    by (cases "lookup E s (key l)") (simp_all add: g ih is_active_def)
qed

lemma handle_future_asset_eq:
  assumes "asset_id asset = Some aid"
  shows "handle_future_asset E asset attributes d s =
    (if \<exists>l\<in>set (update_links E s aid). is_active (lookup E s (key l))
     then (Ret (), fetched E aid s)
     else create_update_task E asset attributes False (fetched E aid s))"
proof -
  have "key ` set (update_links E s aid) \<subseteq> dom (task_cache (fetched E aid s))"
    using update_links_subset [of E s aid] by (auto simp: fetched_dom)
  then have "find_active_issue E (update_links E s aid) (fetched E aid s) =
      (\<exists>l\<in>set (update_links E s aid). is_active (lookup E s (key l)), fetched E aid s)"
    by (simp add: find_active_issue_cached fetched_lookup)
  then show ?thesis
    using assms by (simp add: handle_future_asset_def fetch_and_filter)
qed

lemma handle_future_asset_linked:
  assumes "asset_id asset = Some aid" "update_links E s aid \<noteq> []"
  shows "fst (handle_future_asset E asset attributes d s) = Ret ()"
    and "filter is_action (new_events s (snd (handle_future_asset E asset attributes d s))) = []"
    and "filter is_creator_call (new_events s (snd (handle_future_asset E asset attributes d s)))
          = (if \<exists>l\<in>set (update_links E s aid). is_active (lookup E s (key l)) then []
             else [Enter_create_update_task False])"
    and "HttpGetTickets aid \<in> set (new_events s (snd (handle_future_asset E asset attributes d s)))"
proof -
  let ?R = "handle_future_asset E asset attributes d s"
  obtain ks where ks: "trace (fetched E aid s) = trace s @ HttpGetTickets aid # map HttpGetIssue ks"
    using fetched_trace by blast
  have g: "filter is_action (map HttpGetIssue ks) = []"
    "filter is_creator_call (map HttpGetIssue ks) = []"
    by (induction ks) simp_all
  have "fst ?R = Ret ()
      \<and> filter is_action (new_events s (snd ?R)) = []
      \<and> filter is_creator_call (new_events s (snd ?R))
          = (if \<exists>l\<in>set (update_links E s aid). is_active (lookup E s (key l)) then []
             else [Enter_create_update_task False])
      \<and> HttpGetTickets aid \<in> set (new_events s (snd ?R))"
  proof (cases "\<exists>l\<in>set (update_links E s aid). is_active (lookup E s (key l))")
    case True
    have r: "?R = (Ret (), fetched E aid s)"
      using True by (simp add: handle_future_asset_eq [OF assms(1)])
    have "new_events s (snd ?R) = HttpGetTickets aid # map HttpGetIssue ks"
      by (rule new_events_append) (simp add: r ks)
    then show ?thesis using True g by (simp add: r)
  next
    case False
    let ?C = "create_update_task E asset attributes False (fetched E aid s)"
    have r: "?R = ?C"
      using False by (simp add: handle_future_asset_eq [OF assms(1)])
    have u: "update_links E (fetched E aid s) aid \<noteq> []"
      using assms(2) by (simp add: update_links_fetched)
    obtain evs where evs:
      "trace (snd ?C) = trace (fetched E aid s) @ Enter_create_update_task False # evs"
      "filter is_action evs = []" "filter is_creator_call evs = []"
      using creator_linked(2) [OF assms(1) u] by blast
    have "new_events s (snd ?R) =
        HttpGetTickets aid # map HttpGetIssue ks @ Enter_create_update_task False # evs"
      by (rule new_events_append) (simp add: r evs ks)
    then show ?thesis
      using False g evs creator_linked(1) [OF assms(1) u] by (simp add: r)
  qed
  then show "fst ?R = Ret ()"
    and "filter is_action (new_events s (snd ?R)) = []"
    and "filter is_creator_call (new_events s (snd ?R))
          = (if \<exists>l\<in>set (update_links E s aid). is_active (lookup E s (key l)) then []
             else [Enter_create_update_task False])"
    and "HttpGetTickets aid \<in> set (new_events s (snd ?R))"
    by blast+
qed



text \<open>
  C9: with workspace, project and asset id set, the creator fetches the links of the asset
  itself; when the asset has a linked remediation ticket, whatever its status, the creator
  returns normally and posts nothing. So for an asset handled as due-soon whose only linked
  remediation ticket has status \<open>Done\<close>, the creator is invoked once and no issue is
  created.
\<close>

theorem creator_defers_to_linked_ticket:
  "(JIRA_WORKSPACE_ID E = Some w \<and> w \<noteq> [] \<and> JIRA_PROJECT_KEY E = Some p \<and> p \<noteq> []
      \<and> asset_id asset = Some aid \<and> aid \<noteq> [] \<longrightarrow>
    HttpGetTickets aid \<in> set (new_events s (snd (create_update_task E asset attributes flag s))))
   \<and> (asset_id asset = Some aid \<and> update_links E s aid \<noteq> [] \<longrightarrow>
        fst (create_update_task E asset attributes flag s) = Ret ()
      \<and> filter is_action (new_events s (snd (create_update_task E asset attributes flag s))) = [])
   \<and> (asset_id asset = Some aid \<and> update_links E s aid = [l] \<and> lookup E s (key l) = Some t
        \<and> task_status t = ''Done'' \<longrightarrow>
        fst (handle_future_asset E asset attributes d s) = Ret ()
      \<and> filter is_creator_call (new_events s (snd (handle_future_asset E asset attributes d s)))
          = [Enter_create_update_task False]
      \<and> filter is_create (new_events s (snd (handle_future_asset E asset attributes d s))) = [])"
proof -
  let ?C = "create_update_task E asset attributes flag s"
  let ?R = "handle_future_asset E asset attributes d s"
  have a: "HttpGetTickets aid \<in> set (new_events s (snd ?C))"
    if c: "JIRA_WORKSPACE_ID E = Some w" "w \<noteq> []" "JIRA_PROJECT_KEY E = Some p" "p \<noteq> []"
      "asset_id asset = Some aid" "aid \<noteq> []"
  proof -
    obtain ks where ks: "trace (prepared E aid flag s) =
        trace s @ Enter_create_update_task flag # HttpGetTickets aid # map HttpGetIssue ks"
      using prepared_trace by blast
    have "\<exists>post. trace (snd ?C) = trace (prepared E aid flag s) @ post"
      by (simp add: creator_eq [OF c] emit_def split: res.splits)
    then obtain post where "trace (snd ?C) = trace (prepared E aid flag s) @ post" by blast
    then have "new_events s (snd ?C) =
        Enter_create_update_task flag # HttpGetTickets aid # map HttpGetIssue ks @ post"
      using ks by (intro new_events_append) simp
    then show ?thesis by simp
  qed
  have b: "fst ?C = Ret () \<and> filter is_action (new_events s (snd ?C)) = []"
    if i: "asset_id asset = Some aid" and u: "update_links E s aid \<noteq> []"
  proof -
    obtain evs where evs: "trace (snd ?C) = trace s @ Enter_create_update_task flag # evs"
      "filter is_action evs = []"
      using creator_linked(2) [OF i u] by blast
    have "new_events s (snd ?C) = Enter_create_update_task flag # evs"
      by (rule new_events_append) (rule evs(1))
    then show ?thesis using evs(2) creator_linked(1) [OF i u] by simp
  qed
  have c: "fst ?R = Ret ()
      \<and> filter is_creator_call (new_events s (snd ?R)) = [Enter_create_update_task False]
      \<and> filter is_create (new_events s (snd ?R)) = []"
    if i: "asset_id asset = Some aid" and u: "update_links E s aid = [l]"
      and l: "lookup E s (key l) = Some t" and d: "task_status t = ''Done''"
  proof -
    have ne: "update_links E s aid \<noteq> []" using u by simp
    have act: "\<not> (\<exists>l\<in>set (update_links E s aid). is_active (lookup E s (key l)))"
      using u l d by (simp add: is_active_iff)
    have "filter is_create (filter is_action (new_events s (snd ?R))) = []"
      by (simp only: handle_future_asset_linked(2) [OF i ne] filter.simps)
    then have "filter is_create (new_events s (snd ?R)) = []"
      by (simp only: filter_create_action)
    then show ?thesis
      using handle_future_asset_linked(1,3) [OF i ne, of attributes d] act by simp
  qed
  show ?thesis
    using a b c by blast
qed

theorem creator_defers_to_linked_ticket_witness:
  "HttpGetTickets ''A3'' \<in> set (new_events state0
      (snd (create_update_task env1 (asset_of ''A3'' ''2024-06-04'') (attrs_of ''2024-06-04'')
         False state0)))
   \<and> filter is_action (new_events state0
      (snd (create_update_task env1 (asset_of ''A3'' ''2024-06-04'') (attrs_of ''2024-06-04'')
         False state0))) = []
   \<and> fst (handle_future_asset env1 (asset_of ''A3'' ''2024-06-04'') (attrs_of ''2024-06-04'')
        1717459200000000 state0) = Ret ()
   \<and> filter is_creator_call (new_events state0
        (snd (handle_future_asset env1 (asset_of ''A3'' ''2024-06-04'') (attrs_of ''2024-06-04'')
           1717459200000000 state0))) = [Enter_create_update_task False]
   \<and> filter is_create (new_events state0
        (snd (handle_future_asset env1 (asset_of ''A3'' ''2024-06-04'') (attrs_of ''2024-06-04'')
           1717459200000000 state0))) = []"
proof -
  obtain t3 where t3: "lookup env1 state0 (key (LinkedIssue ''OPS-3'')) = Some t3"
    "task_status t3 = ''Done''"
    by (simp add: scenario_lookup env1_simps ticket_def task_status_def)
  have h: "JIRA_WORKSPACE_ID env1 = Some ''ws''" "JIRA_PROJECT_KEY env1 = Some ''OPS''"
    by (simp_all add: scenario_defs)
  show ?thesis
    using
      creator_defers_to_linked_ticket [where E = env1 and asset = "asset_of ''A3'' ''2024-06-04''"
        and attributes = "attrs_of ''2024-06-04''" and flag = False and s = state0
        and w = "''ws''" and p = "''OPS''" and aid = "''A3''" and l = "LinkedIssue ''OPS-3''"
        and t = t3 and d = 1717459200000000]
      t3 h
    by (simp add: scenario_assets scenario_links)
qed

subsection \<open>Overdue assets\<close>

lemma handle_overdue_asset_eq:
  assumes "asset_id asset = Some aid"
  shows "handle_overdue_asset E asset attributes s =
    (if update_links E s aid \<noteq> []
     then process_each E (update_links E s aid) asset attributes (fetched E aid s)
     else create_update_task E asset attributes True (fetched E aid s))"
  using assms by (simp add: handle_overdue_asset_def fetch_and_filter)

lemma process_each_calls:
  "\<exists>evs n. trace (snd (process_each E issues asset attributes s)) = trace s @ evs
     \<and> filter is_creator_call evs = [] \<and> filter is_create evs = []
     \<and> filter is_decider_call evs
         = map (\<lambda>i. Enter_process_linked_update_issue (key i)) (take n issues)
     \<and> n \<le> length issues \<and> (issues \<noteq> [] \<longrightarrow> 0 < n)
     \<and> (fst (process_each E issues asset attributes s) = Ret () \<longrightarrow> n = length issues)"
proof (induction issues arbitrary: s)
  case Nil
  show ?case by (intro exI [of _ "[]"] exI [of _ 0]) simp
next
  case (Cons i issues)
  let ?D = "process_linked_update_issue E i asset attributes s"
  obtain e1 where e1: "trace (snd ?D) = trace s @ Enter_process_linked_update_issue (key i) # e1"
    "filter is_decider_call e1 = []" "filter is_creator_call e1 = []" "filter is_create e1 = []"
    using decider_trace [of E i asset attributes s] by blast
  show ?case
  proof (cases "fst ?D")
    case (Raise e)
    then have r: "process_each E (i # issues) asset attributes s = (Raise e, snd ?D)"
      by (simp add: case_prod_beta)
    show ?thesis
      unfolding r using e1
      by (intro exI [of _ "Enter_process_linked_update_issue (key i) # e1"] exI [of _ 1]) simp
  next
    case (Ret u)
    then have r: "process_each E (i # issues) asset attributes s =
        process_each E issues asset attributes (snd ?D)"
      by (simp add: case_prod_beta)
    obtain e2 n where e2:
      "trace (snd (process_each E issues asset attributes (snd ?D))) = trace (snd ?D) @ e2"
      "filter is_creator_call e2 = []" "filter is_create e2 = []"
      "filter is_decider_call e2 = map (\<lambda>i. Enter_process_linked_update_issue (key i)) (take n issues)"
      "n \<le> length issues"
      "fst (process_each E issues asset attributes (snd ?D)) = Ret () \<longrightarrow> n = length issues"
      using Cons.IH [of "snd ?D"] by blast
    show ?thesis
      unfolding r using e1 e2
      by (intro exI [of _ "Enter_process_linked_update_issue (key i) # e1 @ e2"]
          exI [of _ "Suc n"]) simp
  qed
qed


lemma process_each_append:
  "process_each E (pre @ rest) asset attributes s =
     (case process_each E pre asset attributes s of
        (Raise e, s1) \<Rightarrow> (Raise e, s1)
      | (Ret u, s1) \<Rightarrow> process_each E rest asset attributes s1)"
  by (induction pre arbitrary: s) (simp_all split: prod.splits res.splits)

lemma process_each_stops:
  assumes "process_each E pre asset attributes s = (Ret (), s')"
    and "fst (process_linked_update_issue E i asset attributes s') = Raise e"
  shows "process_each E (pre @ i # post) asset attributes s =
           process_linked_update_issue E i asset attributes s'"
  using assms
  by (cases "process_linked_update_issue E i asset attributes s'")
     (simp add: process_each_append)

lemma lookup_trace_ticks: "lookup E (s\<lparr>trace := x, ticks := n\<rparr>) = lookup E s"
  by (intro ext) (simp add: lookup_def)

lemma decider_keeps_lookup:
  "lookup E (snd (process_linked_update_issue E i asset attributes s)) = lookup E s"
proof -
  obtain acts n where
    "snd (process_linked_update_issue E i asset attributes s) =
      (entered E (key i) s)\<lparr>trace := trace (entered E (key i) s) @ acts, ticks := n\<rparr>"
    using decider_shape [of E i asset attributes s] by blast
  then show ?thesis by (simp add: lookup_trace_ticks entered_lookup)
qed

lemma process_each_lookup:
  "lookup E (snd (process_each E issues asset attributes s)) = lookup E s"
proof (induction issues arbitrary: s)
  case Nil
  show ?case by simp
next
  case (Cons i issues)
  show ?case
  proof (cases "fst (process_linked_update_issue E i asset attributes s)")
    case (Raise e)
    then show ?thesis by (simp add: case_prod_beta decider_keeps_lookup)
  next
    case (Ret u)
    then show ?thesis using Cons [of "snd (process_linked_update_issue E i asset attributes s)"]
      by (simp add: case_prod_beta decider_keeps_lookup)
  qed
qed

lemma process_each_done_calls:
  assumes "process_each E issues asset attributes s = (Ret (), s')"
  shows "\<exists>evs. trace s' = trace s @ evs
     \<and> filter is_decider_call evs = map (\<lambda>i. Enter_process_linked_update_issue (key i)) issues"
proof -
  obtain evs n where e:
    "trace (snd (process_each E issues asset attributes s)) = trace s @ evs"
    "filter is_decider_call evs
       = map (\<lambda>i. Enter_process_linked_update_issue (key i)) (take n issues)"
    "fst (process_each E issues asset attributes s) = Ret () \<longrightarrow> n = length issues"
    using process_each_calls [of E issues asset attributes s] by blast
  show ?thesis using e assms by (intro exI [of _ evs]) simp
qed

lemma overdue_stops:
  assumes i: "asset_id asset = Some aid"
    and u: "update_links E s aid = pre @ i # post"
    and p: "process_each E pre asset attributes (fetched E aid s) = (Ret (), s')"
    and r: "fst (process_linked_update_issue E i asset attributes s') = Raise e"
  shows "handle_overdue_asset E asset attributes s =
           process_linked_update_issue E i asset attributes s'"
    and "filter is_decider_call (new_events s (snd (handle_overdue_asset E asset attributes s)))
          = map (\<lambda>i. Enter_process_linked_update_issue (key i)) (pre @ [i])"
proof -
  show h: "handle_overdue_asset E asset attributes s =
           process_linked_update_issue E i asset attributes s'"
    using u process_each_stops [OF p r, of post]
    by (simp add: handle_overdue_asset_eq [OF i])
  obtain ks where ks: "trace (fetched E aid s) = trace s @ HttpGetTickets aid # map HttpGetIssue ks"
    using fetched_trace by blast
  have g: "filter is_decider_call (map HttpGetIssue ks) = []"
    by (induction ks) simp_all
  obtain e1 where e1: "trace s' = trace (fetched E aid s) @ e1"
    "filter is_decider_call e1 = map (\<lambda>i. Enter_process_linked_update_issue (key i)) pre"
    using process_each_done_calls [OF p] by blast
  obtain e2 where e2:
    "trace (snd (process_linked_update_issue E i asset attributes s')) =
       trace s' @ Enter_process_linked_update_issue (key i) # e2"
    "filter is_decider_call e2 = []"
    using decider_trace [of E i asset attributes s'] by blast
  have "new_events s (snd (handle_overdue_asset E asset attributes s)) =
      HttpGetTickets aid # map HttpGetIssue ks @ e1 @ Enter_process_linked_update_issue (key i) # e2"
    by (rule new_events_append) (simp add: h e2 e1 ks)
  then show "filter is_decider_call (new_events s (snd (handle_overdue_asset E asset attributes s)))
          = map (\<lambda>i. Enter_process_linked_update_issue (key i)) (pre @ [i])"
    using g e1 e2 by simp
qed




subsection \<open>Failures of the ticket client\<close>

lemma get_task_cached_replies:
  "get_task_cached (E\<lparr>comment_reply := f, transition_reply := g\<rparr>) = get_task_cached E"
  by (intro ext) (simp add: get_task_cached_def get_task_def split: option.splits)

lemma filter_update_issues_replies:
  "filter_update_issues (E\<lparr>comment_reply := f, transition_reply := g\<rparr>) ls s
     = filter_update_issues E ls s"
  by (induction ls arbitrary: s) (simp_all add: get_task_cached_replies split: prod.splits)

lemma find_active_issue_replies:
  "find_active_issue (E\<lparr>comment_reply := f, transition_reply := g\<rparr>) ls s
     = find_active_issue E ls s"
  by (induction ls arbitrary: s)
     (simp_all add: get_task_cached_replies split: prod.splits option.splits)

lemma create_update_task_replies:
  "create_update_task (E\<lparr>comment_reply := f, transition_reply := g\<rparr>) = create_update_task E"
  by (intro ext)
     (simp add: create_update_task_def create_task_def get_object_connected_tickets_def
        filter_update_issues_replies Let_def
        split: option.splits prod.splits res.splits)

lemma decider_replies:
  "process_linked_update_issue (E\<lparr>comment_reply := f, transition_reply := g\<rparr>)
     = process_linked_update_issue E"
proof -
  have o: "offered (E\<lparr>comment_reply := f, transition_reply := g\<rparr>) = offered E"
    by (intro ext) (simp add: offered_def)
  have t: "(case transition_task_by_name (E\<lparr>comment_reply := f, transition_reply := g\<rparr>) k n s of
              (Raise e, s4) \<Rightarrow> (Raise e, s4) | (Ret r', s4) \<Rightarrow> (Ret (), s4))
         = (case transition_task_by_name E k n s of
              (Raise e, s4) \<Rightarrow> (Raise e, s4) | (Ret r', s4) \<Rightarrow> (Ret (), s4))" for k n s
    by (cases "offered E k n") (simp_all add: transition_task_by_name_eq o)
  show ?thesis
    by (intro ext)
       (simp add: process_linked_update_issue_def get_task_cached_replies add_comment_def t
          datetime_now_def Let_def split: option.splits prod.splits res.splits)
qed

lemma process_each_replies:
  "process_each (E\<lparr>comment_reply := f, transition_reply := g\<rparr>) issues asset attributes s
     = process_each E issues asset attributes s"
  by (induction issues arbitrary: s) (simp_all add: decider_replies split: prod.splits res.splits)

lemma process_asset_update_replies:
  "process_asset_update (E\<lparr>comment_reply := f, transition_reply := g\<rparr>) = process_asset_update E"
  by (intro ext)
     (simp add: process_asset_update_def handle_overdue_asset_def handle_future_asset_def
        extract_update_date_def datetime_now_def get_object_connected_tickets_def
        filter_update_issues_replies find_active_issue_replies create_update_task_replies
        process_each_replies Let_def
        split: option.splits prod.splits res.splits urgency.splits)

lemma process_assets_replies:
  "process_assets_with_update (E\<lparr>comment_reply := f, transition_reply := g\<rparr>) assets s
     = process_assets_with_update E assets s"
  by (induction assets arbitrary: s)
     (simp_all add: process_asset_update_replies split: prod.splits res.splits)

lemma process_assets_append:
  "process_assets_with_update E (before @ rest) s =
     (case process_assets_with_update E before s of
        (Raise e, s1) \<Rightarrow> (Raise e, s1)
      | (Ret u, s1) \<Rightarrow> process_assets_with_update E rest s1)"
  by (induction before arbitrary: s) (simp_all split: prod.splits res.splits)

lemma process_assets_stops:
  assumes "process_assets_with_update E before s = (Ret (), s')"
    and "fst (process_asset_update E asset s') = Raise e"
  shows "process_assets_with_update E (before @ asset # rest) s = process_asset_update E asset s'"
  using assms
  by (cases "process_asset_update E asset s'") (simp add: process_assets_append)

lemma pass_stops:
  assumes b: "process_assets_with_update E before start = (Ret (), s)"
    and f: "first_value (extract_attribute_values asset (attribute_map E)) ''Update'' = Ret (PStr d)"
      "d \<noteq> []" "strptime E d = Some due"
    and c: "due \<le> clock E (ticks s)"
    and i: "asset_id asset = Some aid"
    and u: "update_links E s aid = pre @ i # post"
    and p: "process_each E pre asset (extract_attribute_values asset (attribute_map E))
              (fetched E aid (s\<lparr>ticks := Suc (ticks s)\<rparr>)) = (Ret (), s')"
    and l: "lookup E s (key i) = Some t"
    and st: "task_status t \<noteq> ''Done''" "task_status t \<noteq> ''In Progress''"
    and c': "due \<le> clock E (ticks s')"
    and o: "offered E (key i) ''In Progress'' = None"
  shows "process_assets_with_update E (before @ asset # rest) start =
     (Raise (if transitions_reply E (key i) = None then AttributeError else ValueError),
      (entered E (key i) s')
        \<lparr>trace := trace s' @ pre_decider s' (key i)
                  @ [HttpPostComment (key i) (COMMENT_REMINDER d), HttpGetTransitions (key i)],
         ticks := Suc (ticks s')\<rparr>)"
proof -
  let ?attrs = "extract_attribute_values asset (attribute_map E)"
  let ?s1 = "s\<lparr>ticks := Suc (ticks s)\<rparr>"
  have x: "extract_update_date E ?attrs = Ret (Some due)"
    using f by (simp add: extract_update_date_def)
  have u1: "update_links E ?s1 aid = pre @ i # post"
    using u by (simp add: update_links_ticks)
  have "lookup E s' = lookup E (fetched E aid ?s1)"
    using process_each_lookup [of E pre asset ?attrs "fetched E aid ?s1"] p by simp
  then have l': "lookup E s' (key i) = Some t"
    using l by (simp add: fetched_lookup lookup_ticks)
  have v: "truthy (PStr d)" "strptime E (py_str (PStr d)) = Some due"
    using f(2,3) by simp_all
  have d: "process_linked_update_issue E i asset ?attrs s' =
     (Raise (if transitions_reply E (key i) = None then AttributeError else ValueError),
      (entered E (key i) s')
        \<lparr>trace := trace s' @ pre_decider s' (key i)
                  @ [HttpPostComment (key i) (COMMENT_REMINDER d), HttpGetTransitions (key i)],
         ticks := Suc (ticks s')\<rparr>)"
    using st c' o
    by (simp add: decider_result [OF l' f(1) v] decider_requests_def entered_trace)
  then have r: "fst (process_linked_update_issue E i asset ?attrs s') =
      Raise (if transitions_reply E (key i) = None then AttributeError else ValueError)"
    by simp
  have "handle_overdue_asset E asset ?attrs ?s1 = process_linked_update_issue E i asset ?attrs s'"
    using i u1 p r by (rule overdue_stops(1))
  then have a: "process_asset_update E asset s = process_linked_update_issue E i asset ?attrs s'"
    using dispatch_overdue [OF x c] by simp
  then have "fst (process_asset_update E asset s) =
      Raise (if transitions_reply E (key i) = None then AttributeError else ValueError)"
    using r by simp
  then have "process_assets_with_update E (before @ asset # rest) start = process_asset_update E asset s"
    using b by (intro process_assets_stops)
  then show ?thesis using a d by simp
qed

text \<open>
  C2 (amended): what the tracker answers to a comment post or to a transition post has no
  effect on a pass: with any other answers, error answers included, the pass makes the same
  requests and ends in the same way. A transition that cannot be found is different. Take
  a batch whose assets before some overdue asset are processed normally, and a linked
  remediation ticket of that asset, neither \<open>Done\<close> nor \<open>In Progress\<close>, such that the
  tickets before it are processed normally. If no transition named \<open>In Progress\<close> is
  found for it, because the tracker lists none of that name or because the request for the
  list fails, the pass raises (\<open>AttributeError\<close> when the list request has an empty answer,
  \<open>ValueError\<close> otherwise) and ends right after the request for the list: the comment on
  that ticket is posted, the later tickets of the asset and the later assets of the batch
  are not processed.
\<close>

theorem client_failures:
  "process_assets_with_update (E\<lparr>comment_reply := f, transition_reply := g\<rparr>) assets start
     = process_assets_with_update E assets start
   \<and> (process_assets_with_update E before start = (Ret (), s)
        \<and> first_value (extract_attribute_values asset (attribute_map E)) ''Update'' = Ret (PStr d)
        \<and> d \<noteq> [] \<and> strptime E d = Some due
        \<and> due \<le> clock E (ticks s) \<and> asset_id asset = Some aid
        \<and> update_links E s aid = pre @ i # post
        \<and> process_each E pre asset (extract_attribute_values asset (attribute_map E))
              (fetched E aid (s\<lparr>ticks := Suc (ticks s)\<rparr>)) = (Ret (), s')
        \<and> lookup E s (key i) = Some t
        \<and> task_status t \<noteq> ''Done'' \<and> task_status t \<noteq> ''In Progress''
        \<and> due \<le> clock E (ticks s') \<and> offered E (key i) ''In Progress'' = None
      \<longrightarrow> process_assets_with_update E (before @ asset # rest) start =
           (Raise (if transitions_reply E (key i) = None then AttributeError else ValueError),
            (entered E (key i) s')
              \<lparr>trace := trace s' @ pre_decider s' (key i)
                        @ [HttpPostComment (key i) (COMMENT_REMINDER d),
                           HttpGetTransitions (key i)],
               ticks := Suc (ticks s')\<rparr>))"
  using pass_stops [of E before start s asset d due aid pre i post s' t rest] process_assets_replies
  by blast

theorem client_failures_witness:
  "process_assets_with_update
      (env1\<lparr>comment_reply := (\<lambda>k c. ErrorDict), transition_reply := (\<lambda>k t. ErrorDict)\<rparr>)
      [asset_of ''A2'' ''2024-01-01'', asset_of ''A1'' ''2024-01-01''] state0
     = (Ret (),
        \<lparr>task_cache = [''OPS-1'' \<mapsto> ticket ''To Do'' [''AssetUpdate'']],
         trace = [HttpGetTickets ''A2'', HttpGetIssue ''OPS-1'',
                  Enter_process_linked_update_issue ''OPS-1'',
                  HttpPostComment ''OPS-1'' (COMMENT_REMINDER ''2024-01-01''),
                  HttpGetTransitions ''OPS-1'', HttpPostTransition ''OPS-1'' ''21'',
                  HttpGetTickets ''A1'', Enter_create_update_task True, HttpGetTickets ''A1'',
                  HttpPostIssue
                    \<lparr>project = ''OPS'', summary = ''Update Printer'',
                     description = TASK_DESCRIPTION_TEMPLATE ''Printer'', issuetype = ''Task'',
                     assignee = None, duedate = Some ''2024-01-01'',
                     issue_labels = Some [''AssetUpdate''],
                     customfield_10191 = Some (''ws'', ''ws:A1'', ''A1'')\<rparr>],
         ticks = 3\<rparr>)
   \<and> process_assets_with_update env_down
        [asset_of ''A2'' ''2024-01-01'', asset_of ''A1'' ''2024-01-01''] state0
      = (Raise ValueError,
         \<lparr>task_cache = [''OPS-1'' \<mapsto> ticket ''To Do'' [''AssetUpdate'']],
          trace = [HttpGetTickets ''A2'', HttpGetIssue ''OPS-1'',
                   Enter_process_linked_update_issue ''OPS-1'',
                   HttpPostComment ''OPS-1'' (COMMENT_REMINDER ''2024-01-01''),
                   HttpGetTransitions ''OPS-1''],
          ticks = 2\<rparr>)
   \<and> process_assets_with_update env1
        [asset_of ''A2'' ''2024-01-01'', asset_of ''A8'' ''2024-01-01'',
         asset_of ''A1'' ''2024-01-01''] state0
      = (Raise ValueError,
         \<lparr>task_cache = [''OPS-1'' \<mapsto> ticket ''To Do'' [''AssetUpdate''],
                        ''OPS-4'' \<mapsto> ticket ''Blocked'' [''AssetUpdate''],
                        ''OPS-3'' \<mapsto> ticket ''Done'' [''AssetUpdate'']],
          trace = [HttpGetTickets ''A2'', HttpGetIssue ''OPS-1'',
                   Enter_process_linked_update_issue ''OPS-1'',
                   HttpPostComment ''OPS-1'' (COMMENT_REMINDER ''2024-01-01''),
                   HttpGetTransitions ''OPS-1'', HttpPostTransition ''OPS-1'' ''21'',
                   HttpGetTickets ''A8'', HttpGetIssue ''OPS-4'', HttpGetIssue ''OPS-3'',
                   Enter_process_linked_update_issue ''OPS-1'',
                   HttpPostComment ''OPS-1'' (COMMENT_REMINDER ''2024-01-01''),
                   HttpGetTransitions ''OPS-1'', HttpPostTransition ''OPS-1'' ''21'',
                   Enter_process_linked_update_issue ''OPS-4'',
                   HttpPostComment ''OPS-4'' (COMMENT_REMINDER ''2024-01-01''),
                   HttpGetTransitions ''OPS-4''],
          ticks = 5\<rparr>)"
proof -
  let ?A1 = "asset_of ''A1'' ''2024-01-01''"
  let ?A2 = "asset_of ''A2'' ''2024-01-01''"
  let ?A8 = "asset_of ''A8'' ''2024-01-01''"
  let ?attrs = "attrs_of ''2024-01-01''"
  let ?T1 = "ticket ''To Do'' [''AssetUpdate'']"
  have r: "process_assets_with_update env1 [?A2, ?A1] state0
     = (Ret (),
        \<lparr>task_cache = [''OPS-1'' \<mapsto> ?T1],
         trace = [HttpGetTickets ''A2'', HttpGetIssue ''OPS-1'',
                  Enter_process_linked_update_issue ''OPS-1'',
                  HttpPostComment ''OPS-1'' (COMMENT_REMINDER ''2024-01-01''),
                  HttpGetTransitions ''OPS-1'', HttpPostTransition ''OPS-1'' ''21'',
                  HttpGetTickets ''A1'', Enter_create_update_task True, HttpGetTickets ''A1'',
                  HttpPostIssue
                    \<lparr>project = ''OPS'', summary = ''Update Printer'',
                     description = TASK_DESCRIPTION_TEMPLATE ''Printer'', issuetype = ''Task'',
                     assignee = None, duedate = Some ''2024-01-01'',
                     issue_labels = Some [''AssetUpdate''],
                     customfield_10191 = Some (''ws'', ''ws:A1'', ''A1'')\<rparr>],
         ticks = 3\<rparr>)"
    by (simp add: model_defs scenario_defs templates_nonempty)
       (simp add: TASK_SUMMARY_TEMPLATE_def)
  have a: "process_assets_with_update
      (env1\<lparr>comment_reply := (\<lambda>k c. ErrorDict), transition_reply := (\<lambda>k t. ErrorDict)\<rparr>)
      [?A2, ?A1] state0 = process_assets_with_update env1 [?A2, ?A1] state0"
    using client_failures [where E = env1 and f = "\<lambda>k c. ErrorDict" and g = "\<lambda>k t. ErrorDict"
        and assets = "[?A2, ?A1]" and start = state0]
    by blast
  text \<open>The listing fails for the first ticket of the first asset.\<close>
  let ?t1 = "Task (Some (FieldsObj (Some (StatusObj (Some ''To Do''))) (Some [''AssetUpdate''])))"
  let ?t4 = "Task (Some (FieldsObj (Some (StatusObj (Some ''Blocked''))) (Some [''AssetUpdate''])))"
  have b1: "process_assets_with_update env_down ([] @ ?A2 # [?A1]) state0 =
      (Raise (if transitions_reply env_down (key (LinkedIssue ''OPS-1'')) = None
              then AttributeError else ValueError),
       (entered env_down (key (LinkedIssue ''OPS-1''))
          (fetched env_down ''A2'' (state0\<lparr>ticks := Suc (ticks state0)\<rparr>)))
         \<lparr>trace := trace (fetched env_down ''A2'' (state0\<lparr>ticks := Suc (ticks state0)\<rparr>))
            @ pre_decider (fetched env_down ''A2'' (state0\<lparr>ticks := Suc (ticks state0)\<rparr>))
                (key (LinkedIssue ''OPS-1''))
            @ [HttpPostComment (key (LinkedIssue ''OPS-1'')) (COMMENT_REMINDER ''2024-01-01''),
               HttpGetTransitions (key (LinkedIssue ''OPS-1''))],
           ticks := Suc (ticks (fetched env_down ''A2'' (state0\<lparr>ticks := Suc (ticks state0)\<rparr>)))\<rparr>)"
    by (rule client_failures [where E = env_down and before = "[]" and start = state0
          and s = state0 and asset = ?A2 and d = "''2024-01-01''" and due = 1704067200000000
          and aid = "''A2''" and pre = "[]" and i = "LinkedIssue ''OPS-1''" and post = "[]"
          and t = ?t1 and rest = "[?A1]", THEN conjunct2, THEN mp])
       (simp add: env_down_def scenario_defs extract_attribute_values_def
          first_value_def update_links_def linked_def lookup_def is_task_for_update_def
          task_status_def offered_def fetched_ticks)
  have c1: "process_assets_with_update env_down [?A2, ?A1] state0
      = (Raise ValueError,
         \<lparr>task_cache = [''OPS-1'' \<mapsto> ?T1],
          trace = [HttpGetTickets ''A2'', HttpGetIssue ''OPS-1'',
                   Enter_process_linked_update_issue ''OPS-1'',
                   HttpPostComment ''OPS-1'' (COMMENT_REMINDER ''2024-01-01''),
                   HttpGetTransitions ''OPS-1''],
          ticks = 2\<rparr>)"
    using b1
    by (simp add: env_down_def scenario_defs entered_eq pre_decider_def fetched_def linked_def
        get_task_cached_def get_task_def emit_def)
  text \<open>The transition is missing for the second ticket of the second asset.\<close>
  let ?sA = "\<lparr>task_cache = [''OPS-1'' \<mapsto> ?T1],
             trace = [HttpGetTickets ''A2'', HttpGetIssue ''OPS-1'',
                      Enter_process_linked_update_issue ''OPS-1'',
                      HttpPostComment ''OPS-1'' (COMMENT_REMINDER ''2024-01-01''),
                      HttpGetTransitions ''OPS-1'', HttpPostTransition ''OPS-1'' ''21''],
             ticks = 2\<rparr>"
  let ?sB = "\<lparr>task_cache = [''OPS-1'' \<mapsto> ?T1,
                           ''OPS-4'' \<mapsto> ticket ''Blocked'' [''AssetUpdate''],
                           ''OPS-3'' \<mapsto> ticket ''Done'' [''AssetUpdate'']],
             trace = [HttpGetTickets ''A2'', HttpGetIssue ''OPS-1'',
                      Enter_process_linked_update_issue ''OPS-1'',
                      HttpPostComment ''OPS-1'' (COMMENT_REMINDER ''2024-01-01''),
                      HttpGetTransitions ''OPS-1'', HttpPostTransition ''OPS-1'' ''21'',
                      HttpGetTickets ''A8'', HttpGetIssue ''OPS-4'', HttpGetIssue ''OPS-3'',
                      Enter_process_linked_update_issue ''OPS-1'',
                      HttpPostComment ''OPS-1'' (COMMENT_REMINDER ''2024-01-01''),
                      HttpGetTransitions ''OPS-1'', HttpPostTransition ''OPS-1'' ''21''],
             ticks = 4\<rparr>"
  have b2: "process_assets_with_update env1 ([?A2] @ ?A8 # [?A1]) state0 =
      (Raise (if transitions_reply env1 (key (LinkedIssue ''OPS-4'')) = None
              then AttributeError else ValueError),
       (entered env1 (key (LinkedIssue ''OPS-4'')) ?sB)
         \<lparr>trace := trace ?sB @ pre_decider ?sB (key (LinkedIssue ''OPS-4''))
            @ [HttpPostComment (key (LinkedIssue ''OPS-4'')) (COMMENT_REMINDER ''2024-01-01''),
               HttpGetTransitions (key (LinkedIssue ''OPS-4''))],
           ticks := Suc (ticks ?sB)\<rparr>)"
    by (rule client_failures [where E = env1 and before = "[?A2]" and start = state0
          and s = ?sA and asset = ?A8 and d = "''2024-01-01''" and due = 1704067200000000
          and aid = "''A8''" and pre = "[LinkedIssue ''OPS-1'']" and i = "LinkedIssue ''OPS-4''"
          and post = "[LinkedIssue ''OPS-3'']" and s' = ?sB
          and t = ?t4 and rest = "[?A1]", THEN conjunct2, THEN mp])
       (intro conjI;
        simp add: model_defs scenario_defs update_links_def linked_def lookup_def
          offered_def fetched_def)
  have c2: "process_assets_with_update env1 [?A2, ?A8, ?A1] state0
      = (Raise ValueError,
         \<lparr>task_cache = [''OPS-1'' \<mapsto> ?T1,
                        ''OPS-4'' \<mapsto> ticket ''Blocked'' [''AssetUpdate''],
                        ''OPS-3'' \<mapsto> ticket ''Done'' [''AssetUpdate'']],
          trace = [HttpGetTickets ''A2'', HttpGetIssue ''OPS-1'',
                   Enter_process_linked_update_issue ''OPS-1'',
                   HttpPostComment ''OPS-1'' (COMMENT_REMINDER ''2024-01-01''),
                   HttpGetTransitions ''OPS-1'', HttpPostTransition ''OPS-1'' ''21'',
                   HttpGetTickets ''A8'', HttpGetIssue ''OPS-4'', HttpGetIssue ''OPS-3'',
                   Enter_process_linked_update_issue ''OPS-1'',
                   HttpPostComment ''OPS-1'' (COMMENT_REMINDER ''2024-01-01''),
                   HttpGetTransitions ''OPS-1'', HttpPostTransition ''OPS-1'' ''21'',
                   Enter_process_linked_update_issue ''OPS-4'',
                   HttpPostComment ''OPS-4'' (COMMENT_REMINDER ''2024-01-01''),
                   HttpGetTransitions ''OPS-4''],
          ticks = 5\<rparr>)"
    using b2
    by (simp add: scenario_defs entered_eq pre_decider_def)
  show ?thesis
    using r a c1 c2 by simp
qed

text \<open>
  A batch of two overdue assets. The first, \<open>A4\<close>, has the linked remediation tickets
  \<open>OPS-4\<close> and \<open>OPS-1\<close>, and no transition named \<open>In Progress\<close> is offered for
  \<open>OPS-4\<close>: the pass ends with ValueError after the comment on \<open>OPS-4\<close>; neither the
  ticket \<open>OPS-1\<close> nor the asset \<open>A1\<close> is processed, although \<open>A1\<close> alone is processed
  normally.
\<close>

theorem client_failures_counterexample:
  "offered env1 ''OPS-4'' ''In Progress'' = None
   \<and> process_assets_with_update env1
        [asset_of ''A4'' ''2024-01-01'', asset_of ''A1'' ''2024-01-01''] state0
      = (Raise ValueError,
         \<lparr>task_cache = [''OPS-4'' \<mapsto> ticket ''Blocked'' [''AssetUpdate''],
                        ''OPS-1'' \<mapsto> ticket ''To Do'' [''AssetUpdate'']],
          trace = [HttpGetTickets ''A4'', HttpGetIssue ''OPS-4'', HttpGetIssue ''OPS-1'',
                   Enter_process_linked_update_issue ''OPS-4'',
                   HttpPostComment ''OPS-4'' (COMMENT_REMINDER ''2024-01-01''),
                   HttpGetTransitions ''OPS-4''],
          ticks = 2\<rparr>)
   \<and> fst (process_assets_with_update env1 [asset_of ''A1'' ''2024-01-01''] state0) = Ret ()
   \<and> hd (trace (snd (process_assets_with_update env1 [asset_of ''A1'' ''2024-01-01''] state0)))
        = HttpGetTickets ''A1''"
  by (simp add: model_defs scenario_defs offered_def templates_nonempty)

end
